theory Spec2Isabelle
  imports Complex_Main "HOL-Library.Word"
begin

section \<open>GuruTvapay Node.js SDK: the client and its platform\<close>

text \<open>
  The development embeds \<^verbatim>\<open>gurutvapay-node-sdk.js\<close>. JavaScript numbers are taken as
  reals (delays in milliseconds, the backoff factor, expiry times), integers (the clock
  \<^verbatim>\<open>Date.now()\<close>) or naturals (the attempt counter, the retry budget \<^verbatim>\<open>maxRetries\<close>,
  HTTP statuses); strings as lists of 8-bit characters, which is what a header value
  is; objects used as dictionaries as maps; and a thrown \<^verbatim>\<open>Error\<close> as the \<open>Inl\<close> of a
  sum. What the SDK obtains from Node itself (the transport \<^verbatim>\<open>fetch\<close>,
  \<^verbatim>\<open>JSON.parse\<close>, \<^verbatim>\<open>JSON.stringify\<close>, \<^verbatim>\<open>URLSearchParams\<close>,
  \<^verbatim>\<open>crypto.createHmac\<close>) is a parameter of the functions that use it.
\<close>

datatype json =
  JNull | JBool bool | JNum real | JStr string | JArr "json list" | JObj "(string \<times> json) list"

datatype env = Uat | Live

text \<open>
  \<^verbatim>\<open>this.token = { access_token, expires_at }\<close>. The two fields hold whatever the login
  stored; their types are parameters. A token typed as the API delivers it has a string
  and a number of seconds, and that is the token \<^verbatim>\<open>_authHeader\<close> is modelled on; the
  login itself stores JavaScript values as they come out of the response, here JSON
  values.
\<close>

record ('a, 'e) token_of =
  access_token :: 'a
  expires_at :: 'e

record ('a, 'e) client_of =
  env :: env
  apiKey :: "string option"
  clientId :: "string option"
  clientSecret :: "string option"
  root_url :: string
  timeout :: real
  maxRetries :: nat
  backoffFactor :: real
  token :: "('a, 'e) token_of option"

type_synonym token = "(string, real) token_of"
type_synonym client = "(string, real) client_of"
type_synonym js_token = "(json, json) token_of"
type_synonym js_client = "(json, json) client_of"

text \<open>The constructor's defaults: \<^verbatim>\<open>env = 'uat'\<close>, no credentials, 30000 ms, 3 retries, factor 0.5.\<close>

definition default_client :: client where
  "default_client =
     \<lparr>env = Uat, apiKey = None, clientId = None, clientSecret = None,
      root_url = ''https://api.gurutvapay.com'', timeout = 30000, maxRetries = 3,
      backoffFactor = 1 / 2, token = None\<rparr>"

text \<open>The same defaults with OAuth credentials, as a client on which a login is run.\<close>

definition oauth_client :: js_client where
  "oauth_client =
     \<lparr>env = Uat, apiKey = None, clientId = Some ''id'', clientSecret = Some ''secret'',
      root_url = ''https://api.gurutvapay.com'', timeout = 30000, maxRetries = 3,
      backoffFactor = 1 / 2, token = None\<rparr>"

text \<open>\<^verbatim>\<open>ENV_PREFIXES\<close>.\<close>

fun ENV_PREFIXES :: "env \<Rightarrow> string" where
  "ENV_PREFIXES Uat = ''/uat_mode''"
| "ENV_PREFIXES Live = ''/live''"

subsection \<open>Requests, responses and what a call leaves behind\<close>

record options =
  http_method :: string
  headers :: "string \<rightharpoonup> string"
  body :: "string option"

text \<open>
  A response as the dispatcher reads it: \<^verbatim>\<open>res.status\<close>, \<^verbatim>\<open>res.headers.get\<close> and the
  body delivered by \<^verbatim>\<open>res.text()\<close>.
\<close>

record response =
  status :: nat
  headers_get :: "string \<rightharpoonup> string"
  body_text :: string

text \<open>One call of \<^verbatim>\<open>fetch\<close> either resolves with a response or rejects (network error, abort).\<close>

datatype exchange = Resolves response | Rejects string

text \<open>
  The transport answers the \<open>n\<close>-th attempt of a call for a URL and options: the schedule
  of the remote side and of the network, which the SDK does not control.
\<close>

type_synonym transport = "nat \<Rightarrow> string \<Rightarrow> options \<Rightarrow> exchange"

text \<open>
  The errors the SDK throws, one constructor per message template:
  \<^verbatim>\<open>AuthError: <status> <text>\<close>, \<^verbatim>\<open>NotFound: <url>\<close>, \<^verbatim>\<open>RateLimit: <text>\<close>,
  \<^verbatim>\<open>HTTP <status>: <text>\<close>, the rejection of \<^verbatim>\<open>fetch\<close> passed on as it is, and the two
  errors of the login.
\<close>

datatype sdk_error =
  AuthError nat string
| NotFound string
| RateLimit string
| HttpError nat string
| FetchRejected string
| CredentialsRequired
| LoginFailed

text \<open>
  The observable steps of a call, in order. The abort timer of an attempt is identified
  by the attempt's number; \<open>Sleep\<close> holds the delay handed to \<^verbatim>\<open>setTimeout\<close>, in
  milliseconds.
\<close>

datatype event = SetTimer nat | Fetch nat | ClearTimer nat | Sleep real

subsection \<open>\<^verbatim>\<open>parseInt(s, 10)\<close>\<close>

text \<open>
  Leading white space is skipped, one sign is read, then the longest run of decimal
  digits; no digit gives \<^verbatim>\<open>NaN\<close>, here \<open>None\<close>.
\<close>

definition is_space :: "char \<Rightarrow> bool" where
  "is_space c \<longleftrightarrow> (of_char c :: nat) \<in> {9, 10, 11, 12, 13, 32, 160}"

definition is_digit :: "char \<Rightarrow> bool" where
  "is_digit c \<longleftrightarrow> 48 \<le> (of_char c :: nat) \<and> (of_char c :: nat) \<le> 57"

definition digits_value :: "string \<Rightarrow> int" where
  "digits_value ds = foldl (\<lambda>acc c. 10 * acc + (int (of_char c) - 48)) 0 ds"

definition parse_digits :: "string \<Rightarrow> int option" where
  "parse_digits s =
     (let ds = takeWhile is_digit s in if ds = [] then None else Some (digits_value ds))"

definition parseInt :: "string \<Rightarrow> int option" where
  "parseInt s =
     (case dropWhile is_space s of
        [] \<Rightarrow> None
      | c # cs \<Rightarrow>
          if c = CHR ''-'' then map_option uminus (parse_digits cs)
          else if c = CHR ''+'' then parse_digits cs
          else parse_digits (c # cs))"

subsection \<open>The retry/backoff dispatcher \<^verbatim>\<open>_fetchWithRetry\<close>\<close>

text \<open>\<^verbatim>\<open>this.backoffFactor * Math.pow(2, attempt - 1) * 1000\<close>, in milliseconds.\<close>

definition backoff_wait :: "('a, 'e) client_of \<Rightarrow> nat \<Rightarrow> real" where
  "backoff_wait c attempt = backoffFactor c * 2 ^ (attempt - 1) * 1000"

text \<open>\<^verbatim>\<open>parseInt(retryAfter, 10) || (backoff)\<close>: \<^verbatim>\<open>NaN\<close> and \<open>0\<close> are falsy.\<close>

definition retry_after_wait :: "('a, 'e) client_of \<Rightarrow> nat \<Rightarrow> string \<Rightarrow> real" where
  "retry_after_wait c attempt retryAfter =
     (case parseInt retryAfter of
        None \<Rightarrow> backoff_wait c attempt
      | Some n \<Rightarrow> if n = 0 then backoff_wait c attempt else of_int n)"

text \<open>How the \<^verbatim>\<open>try\<close> block of one attempt ends.\<close>

datatype attempt_result = Returned json | Retrying real | Thrown sdk_error

definition ok :: "response \<Rightarrow> bool" where
  "ok res \<longleftrightarrow> 200 \<le> status res \<and> status res \<le> 299"

text \<open>The success value: \<^verbatim>\<open>JSON.parse(text)\<close>, or \<^verbatim>\<open>{ raw: text }\<close> when parsing throws.\<close>

definition decode_body :: "(string \<Rightarrow> json option) \<Rightarrow> string \<Rightarrow> json" where
  "decode_body parse txt = (case parse txt of Some j \<Rightarrow> j | None \<Rightarrow> JObj [(''raw'', JStr txt)])"

text \<open>The classification of a response, lines 78 to 105, in the source's order.\<close>

definition classify ::
  "(string \<Rightarrow> json option) \<Rightarrow> ('a, 'e) client_of \<Rightarrow> string \<Rightarrow> nat \<Rightarrow> response
     \<Rightarrow> attempt_result" where
  "classify parse c url attempt res =
     (if ok res then Returned (decode_body parse (body_text res))
      else if status res = 401 \<or> status res = 403 then
        Thrown (AuthError (status res) (body_text res))
      else if status res = 404 then Thrown (NotFound url)
      else if status res = 429 then
        (case headers_get res ''Retry-After'' of
           None \<Rightarrow> Thrown (RateLimit (body_text res))
         | Some retryAfter \<Rightarrow>
             if retryAfter \<noteq> [] \<and> attempt \<le> maxRetries c
             then Retrying (retry_after_wait c attempt retryAfter)
             else Thrown (RateLimit (body_text res)))
      else if 500 \<le> status res \<and> attempt \<le> maxRetries c then
        Retrying (backoff_wait c attempt)
      else Thrown (HttpError (status res) (body_text res)))"

text \<open>
  The \<^verbatim>\<open>try\<close> block: the abort timer is set, \<^verbatim>\<open>fetch\<close> is awaited, and only when it
  resolves does control reach \<^verbatim>\<open>clearTimeout(id)\<close>; a rejection leaves the block at the
  \<^verbatim>\<open>await\<close>.
\<close>

definition try_block ::
  "(string \<Rightarrow> json option) \<Rightarrow> ('a, 'e) client_of \<Rightarrow> transport \<Rightarrow> string \<Rightarrow> options \<Rightarrow> nat
     \<Rightarrow> event list \<times> attempt_result" where
  "try_block parse c fetch url opts attempt =
     (case fetch attempt url opts of
        Rejects err \<Rightarrow> ([SetTimer attempt, Fetch attempt], Thrown (FetchRejected err))
      | Resolves res \<Rightarrow>
          ([SetTimer attempt, Fetch attempt, ClearTimer attempt],
           classify parse c url attempt res))"

lemma classify_Retrying:
  "classify parse c url attempt res = Retrying w \<Longrightarrow> attempt \<le> maxRetries c"
  by (auto simp: classify_def split: if_splits option.splits)

lemma try_block_Retrying:
  "snd (try_block parse c fetch url opts attempt) = Retrying w \<Longrightarrow> attempt \<le> maxRetries c"
  by (auto simp: try_block_def split: exchange.splits dest: classify_Retrying)

text \<open>
  The dispatcher. \<open>attempt\<close> is incremented on entry; the \<^verbatim>\<open>catch\<close> clause receives
  whatever the \<^verbatim>\<open>try\<close> block throws, the SDK's own classified errors included, and
  retries after the backoff while \<^verbatim>\<open>attempt <= this.maxRetries\<close>. A recursive call is
  returned without \<^verbatim>\<open>await\<close>, so its outcome is the caller's outcome.
\<close>

function fetchWithRetry ::
  "(string \<Rightarrow> json option) \<Rightarrow> ('a, 'e) client_of \<Rightarrow> transport \<Rightarrow> string \<Rightarrow> options \<Rightarrow> nat
     \<Rightarrow> event list \<times> (sdk_error + json)" where
  "fetchWithRetry parse c fetch url opts attempt0 =
     (let attempt = attempt0 + 1;
          tb = try_block parse c fetch url opts attempt
      in case snd tb of
           Returned j \<Rightarrow> (fst tb, Inr j)
         | Retrying wait \<Rightarrow>
             (let rest = fetchWithRetry parse c fetch url opts attempt
              in (fst tb @ Sleep wait # fst rest, snd rest))
         | Thrown err \<Rightarrow>
             if attempt \<le> maxRetries c then
               (let rest = fetchWithRetry parse c fetch url opts attempt
                in (fst tb @ Sleep (backoff_wait c attempt) # fst rest, snd rest))
             else (fst tb, Inl err))"
  by pat_completeness auto
termination
  by (relation "measure (\<lambda>(parse, c, fetch, url, opts, attempt0). Suc (maxRetries c) - attempt0)")
     (auto dest: try_block_Retrying)

declare fetchWithRetry.simps [simp del]


fun sleeps :: "event list \<Rightarrow> real list" where
  "sleeps [] = []"
| "sleeps (Sleep w # evs) = w # sleeps evs"
| "sleeps (_ # evs) = sleeps evs"

subsection \<open>The auth provider \<^verbatim>\<open>_authHeader\<close>\<close>

text \<open>A string field that may be \<^verbatim>\<open>null\<close>, tested as JavaScript tests it: the empty string is falsy.\<close>

definition truthy_string :: "string option \<Rightarrow> bool" where
  "truthy_string s = (case s of None \<Rightarrow> False | Some v \<Rightarrow> v \<noteq> [])"

text \<open>
  \<open>now\<close> is the reading of \<^verbatim>\<open>Date.now()\<close>, in milliseconds. The method only reads
  \<^verbatim>\<open>this\<close>; the client is returned beside the headers to say so.
\<close>

definition token_header :: "client \<Rightarrow> int \<Rightarrow> string \<rightharpoonup> string" where
  "token_header c now =
     (case token c of
        Some tk \<Rightarrow>
          if real_of_int now / 1000 < expires_at tk - 10
          then [''Authorization'' \<mapsto> ''Bearer '' @ access_token tk]
          else Map.empty
      | None \<Rightarrow> Map.empty)"

definition authHeader :: "client \<Rightarrow> int \<Rightarrow> (string \<rightharpoonup> string) \<times> client" where
  "authHeader c now =
     (case apiKey c of
        Some k \<Rightarrow>
          if k \<noteq> [] then ([''Authorization'' \<mapsto> ''Bearer '' @ k], c)
          else (token_header c now, c)
      | None \<Rightarrow> (token_header c now, c))"

subsection \<open>\<^verbatim>\<open>loginWithPassword\<close>\<close>

text \<open>JavaScript truthiness of a decoded JSON value.\<close>

fun truthy :: "json \<Rightarrow> bool" where
  "truthy JNull = False"
| "truthy (JBool b) = b"
| "truthy (JNum x) = (x \<noteq> 0)"
| "truthy (JStr s) = (s \<noteq> [])"
| "truthy (JArr xs) = True"
| "truthy (JObj kvs) = True"

text \<open>
  \<^verbatim>\<open>res.k\<close> on a decoded JSON value, kept only when it is truthy: the three fields the login
  reads are each used under \<^verbatim>\<open>!\<close> or \<^verbatim>\<open>||\<close>, where every falsy value counts as a
  missing one. \<^verbatim>\<open>JSON.parse\<close> keeps the last of duplicate keys.
\<close>

definition truthy_prop :: "json \<Rightarrow> string \<Rightarrow> json option" where
  "truthy_prop res k =
     (case res of
        JObj kvs \<Rightarrow> (case map_of (rev kvs) k of
                       Some v \<Rightarrow> if truthy v then Some v else None
                     | None \<Rightarrow> None)
      | _ \<Rightarrow> None)"

text \<open>
  \<^verbatim>\<open>Math.floor(Date.now() / 1000) + v\<close>, for an integer on the left. JavaScript adds
  numbers, taking \<^verbatim>\<open>true\<close> for 1 and \<^verbatim>\<open>null\<close> for 0; with a string, an array or an
  object on the right it concatenates the decimal text of the integer with the text of
  \<open>v\<close>. The text of an array or object is Node's \<^verbatim>\<open>toString\<close>, the parameter
  \<open>toStr\<close>.
\<close>

fun digits_of :: "nat \<Rightarrow> string" where
  "digits_of n =
     (if n < 10 then [''0123456789'' ! n]
      else digits_of (n div 10) @ [''0123456789'' ! (n mod 10)])"

declare digits_of.simps [simp del]

definition decimal :: "int \<Rightarrow> string" where
  "decimal i = (if i < 0 then CHR ''-'' # digits_of (nat (- i)) else digits_of (nat i))"

definition js_plus :: "(json \<Rightarrow> string) \<Rightarrow> int \<Rightarrow> json \<Rightarrow> json" where
  "js_plus toStr n v =
     (case v of
        JNum y \<Rightarrow> JNum (of_int n + y)
      | JBool b \<Rightarrow> JNum (of_int n + (if b then 1 else 0))
      | JNull \<Rightarrow> JNum (of_int n)
      | JStr s \<Rightarrow> JStr (decimal n @ s)
      | JArr xs \<Rightarrow> JStr (decimal n @ toStr v)
      | JObj kvs \<Rightarrow> JStr (decimal n @ toStr v))"

text \<open>
  \<^verbatim>\<open>res.expires_at || (Math.floor(Date.now() / 1000) + (res.expires_in || 0))\<close>.
\<close>

definition login_expiry :: "(json \<Rightarrow> string) \<Rightarrow> int \<Rightarrow> json \<Rightarrow> json" where
  "login_expiry toStr now res =
     (case truthy_prop res ''expires_at'' of
        Some v \<Rightarrow> v
      | None \<Rightarrow>
          js_plus toStr \<lfloor>real_of_int now / 1000\<rfloor>
            (case truthy_prop res ''expires_in'' of Some v \<Rightarrow> v | None \<Rightarrow> JNum 0))"

text \<open>The request the login sends; \<open>form\<close> is \<^verbatim>\<open>new URLSearchParams(o).toString()\<close>.\<close>

definition login_url :: "('a, 'e) client_of \<Rightarrow> string" where
  "login_url c = root_url c @ ENV_PREFIXES (env c) @ ''/login''"

definition login_options ::
  "((string \<times> string) list \<Rightarrow> string) \<Rightarrow> ('a, 'e) client_of \<Rightarrow> string \<Rightarrow> string \<Rightarrow> string
     \<Rightarrow> options" where
  "login_options form c username password grant_type =
     \<lparr>http_method = ''POST'',
      headers = [''Content-Type'' \<mapsto> ''application/x-www-form-urlencoded''],
      body = Some (form [(''grant_type'', grant_type), (''username'', username),
                         (''password'', password),
                         (''client_id'', case clientId c of Some i \<Rightarrow> i | None \<Rightarrow> []),
                         (''client_secret'', case clientSecret c of Some i \<Rightarrow> i | None \<Rightarrow> [])])\<rparr>"

text \<open>
  The login returns the client it leaves behind, and the stored token or the error thrown.
  \<open>now\<close> is the clock when the dispatcher has answered. What is stored is what the
  response holds: the access token whatever its JSON type, and the expiry computed above.
\<close>

definition loginWithPassword ::
  "(string \<Rightarrow> json option) \<Rightarrow> (json \<Rightarrow> string) \<Rightarrow> ((string \<times> string) list \<Rightarrow> string)
     \<Rightarrow> js_client \<Rightarrow> transport \<Rightarrow> int \<Rightarrow> string \<Rightarrow> string \<Rightarrow> string
     \<Rightarrow> js_client \<times> (sdk_error + js_token)" where
  "loginWithPassword parse toStr form c fetch now username password grant_type =
     (if \<not> truthy_string (clientId c) \<or> \<not> truthy_string (clientSecret c)
      then (c, Inl CredentialsRequired)
      else
        (case snd (fetchWithRetry parse c fetch (login_url c)
                     (login_options form c username password grant_type) 0) of
           Inl err \<Rightarrow> (c, Inl err)
         | Inr res \<Rightarrow>
             if \<not> truthy res then (c, Inl LoginFailed)
             else
               (case truthy_prop res ''access_token'' of
                  None \<Rightarrow> (c, Inl LoginFailed)
                | Some tok \<Rightarrow>
                    (let tk = \<lparr>access_token = tok, expires_at = login_expiry toStr now res\<rparr>
                     in (c\<lparr>token := Some tk\<rparr>, Inr tk)))))"

subsection \<open>\<^verbatim>\<open>createPayment\<close> and \<^verbatim>\<open>request\<close>\<close>

text \<open>
  The argument object of \<^verbatim>\<open>createPayment\<close>; \<open>None\<close> is a property left out, which the
  destructuring replaces by its default.
\<close>

record payment =
  amount :: "json option"
  merchantOrderId :: "json option"
  channel :: "json option"
  purpose :: "json option"
  customer :: "json option"
  pay_expires_in :: "json option"
  metadata :: "json option"

definition defined_field :: "string \<Rightarrow> json option \<Rightarrow> (string \<times> json) list" where
  "defined_field k v = (case v of None \<Rightarrow> [] | Some j \<Rightarrow> [(k, j)])"

definition non_null_field :: "string \<Rightarrow> json option \<Rightarrow> (string \<times> json) list" where
  "non_null_field k v = (case v of None \<Rightarrow> [] | Some JNull \<Rightarrow> [] | Some j \<Rightarrow> [(k, j)])"

text \<open>The payload as \<^verbatim>\<open>JSON.stringify\<close> sees it: undefined properties are dropped.\<close>

definition payment_payload :: "payment \<Rightarrow> json" where
  "payment_payload p =
     JObj (defined_field ''amount'' (amount p) @
           defined_field ''merchantOrderId'' (merchantOrderId p) @
           [(''channel'', case channel p of None \<Rightarrow> JStr ''web'' | Some j \<Rightarrow> j),
            (''purpose'', case purpose p of None \<Rightarrow> JStr ''Online Payment'' | Some j \<Rightarrow> j),
            (''customer'', case customer p of None \<Rightarrow> JObj [] | Some j \<Rightarrow> j)] @
           non_null_field ''expires_in'' (pay_expires_in p) @
           non_null_field ''metadata'' (metadata p))"

text \<open>
  An object spread \<^verbatim>\<open>{ ...a, ...b }\<close> is \<open>a ++ b\<close>: the later operand wins on a shared
  key. \<open>stringify\<close> is \<^verbatim>\<open>JSON.stringify\<close>.
\<close>

definition createPayment_url :: "client \<Rightarrow> string" where
  "createPayment_url c = root_url c @ ''/initiate-payment''"

definition createPayment_options ::
  "(json \<Rightarrow> string) \<Rightarrow> client \<Rightarrow> int \<Rightarrow> payment \<Rightarrow> (string \<rightharpoonup> string) \<Rightarrow> options" where
  "createPayment_options stringify c now p extraHeaders =
     \<lparr>http_method = ''POST'',
      headers = [''Content-Type'' \<mapsto> ''application/json''] ++ fst (authHeader c now) ++ extraHeaders,
      body = Some (stringify (payment_payload p))\<rparr>"

definition createPayment ::
  "(string \<Rightarrow> json option) \<Rightarrow> (json \<Rightarrow> string) \<Rightarrow> client \<Rightarrow> transport \<Rightarrow> int \<Rightarrow> payment
     \<Rightarrow> (string \<rightharpoonup> string) \<Rightarrow> event list \<times> (sdk_error + json)" where
  "createPayment parse stringify c fetch now p extraHeaders =
     fetchWithRetry parse c fetch (createPayment_url c)
       (createPayment_options stringify c now p extraHeaders) 0"

text \<open>The options of \<^verbatim>\<open>request\<close>: \<^verbatim>\<open>data\<close> is a string or an object of form fields.\<close>

datatype request_data = DataString string | DataForm "(string \<times> string) list"

record request_args =
  req_headers :: "string \<rightharpoonup> string"
  params :: "(string \<times> string) list option"
  data :: "request_data option"
  jsonBody :: "json option"

definition startsWith :: "string \<Rightarrow> string \<Rightarrow> bool" where
  "startsWith s p \<longleftrightarrow> take (length p) s = p"

definition request_url ::
  "((string \<times> string) list \<Rightarrow> string) \<Rightarrow> client \<Rightarrow> string \<Rightarrow> (string \<times> string) list option
     \<Rightarrow> string" where
  "request_url form c pathOrUrl ps =
     (let url = (if startsWith pathOrUrl ''http://'' \<or> startsWith pathOrUrl ''https://''
                 then pathOrUrl
                 else root_url c @ (if startsWith pathOrUrl ''/'' then [] else ''/'') @ pathOrUrl)
      in case ps of
           None \<Rightarrow> url
         | Some kvs \<Rightarrow> url @ (if CHR ''?'' \<in> set url then ''&'' else ''?'') @ form kvs)"

definition truthy_data :: "request_data option \<Rightarrow> bool" where
  "truthy_data d = (case d of None \<Rightarrow> False | Some (DataString s) \<Rightarrow> s \<noteq> [] | Some (DataForm kvs) \<Rightarrow> True)"

definition truthy_json :: "json option \<Rightarrow> bool" where
  "truthy_json v = (case v of None \<Rightarrow> False | Some j \<Rightarrow> truthy j)"

definition data_body :: "((string \<times> string) list \<Rightarrow> string) \<Rightarrow> request_data \<Rightarrow> string" where
  "data_body form d = (case d of DataString s \<Rightarrow> s | DataForm kvs \<Rightarrow> form kvs)"

definition request_options ::
  "(json \<Rightarrow> string) \<Rightarrow> ((string \<times> string) list \<Rightarrow> string) \<Rightarrow> client \<Rightarrow> int \<Rightarrow> string
     \<Rightarrow> request_args \<Rightarrow> options" where
  "request_options stringify form c now meth args =
     (let allHeaders = fst (authHeader c now) ++ req_headers args;
          opts = \<lparr>http_method = meth, headers = allHeaders, body = None\<rparr>
      in if truthy_json (jsonBody args) then
           opts\<lparr>body := map_option stringify (jsonBody args),
                headers := [''Content-Type'' \<mapsto> ''application/json''] ++ headers opts\<rparr>
         else if truthy_data (data args) then
           opts\<lparr>body := map_option (data_body form) (data args),
                headers := [''Content-Type'' \<mapsto> ''application/x-www-form-urlencoded'']
                             ++ headers opts\<rparr>
         else opts)"

definition request ::
  "(string \<Rightarrow> json option) \<Rightarrow> (json \<Rightarrow> string) \<Rightarrow> ((string \<times> string) list \<Rightarrow> string) \<Rightarrow> client
     \<Rightarrow> transport \<Rightarrow> int \<Rightarrow> string \<Rightarrow> string \<Rightarrow> request_args
     \<Rightarrow> event list \<times> (sdk_error + json)" where
  "request parse stringify form c fetch now meth pathOrUrl args =
     fetchWithRetry parse c fetch (request_url form c pathOrUrl (params args))
       (request_options stringify form c now meth args) 0"

text \<open>Header names as HTTP compares them: without regard to the case of ASCII letters.\<close>

definition lower :: "char \<Rightarrow> char" where
  "lower ch =
     (if 65 \<le> (of_char ch :: nat) \<and> (of_char ch :: nat) \<le> 90
      then char_of ((of_char ch :: nat) + 32) else ch)"

definition same_header_name :: "string \<Rightarrow> string \<Rightarrow> bool" where
  "same_header_name a b \<longleftrightarrow> map lower a = map lower b"

subsection \<open>\<^verbatim>\<open>verifyWebhook\<close>\<close>

type_synonym byte = "8 word"

text \<open>
  \<^verbatim>\<open>digest('hex')\<close> writes each byte as two lower-case digits.
  \<^verbatim>\<open>Buffer.from(s, 'hex')\<close> reads two characters at a time, in either case, and stops at
  the first pair that holds a character which is no hexadecimal digit; a single last
  character is dropped.
\<close>

definition hex_digit :: "nat \<Rightarrow> char" where
  "hex_digit n = ''0123456789abcdef'' ! n"

definition unhex :: "char \<Rightarrow> nat option" where
  "unhex c =
     (let n = of_char c :: nat in
      if 48 \<le> n \<and> n \<le> 57 then Some (n - 48)
      else if 65 \<le> n \<and> n \<le> 70 then Some (n - 55)
      else if 97 \<le> n \<and> n \<le> 102 then Some (n - 87)
      else None)"

fun hex_encode :: "byte list \<Rightarrow> string" where
  "hex_encode [] = []"
| "hex_encode (b # bs) = hex_digit (unat b div 16) # hex_digit (unat b mod 16) # hex_encode bs"

fun buffer_from_hex :: "string \<Rightarrow> byte list" where
  "buffer_from_hex (a # b # rest) =
     (case (unhex a, unhex b) of
        (Some x, Some y) \<Rightarrow> of_nat (16 * x + y) # buffer_from_hex rest
      | _ \<Rightarrow> [])"
| "buffer_from_hex _ = []"

text \<open>
  HMAC-SHA256 is Node's; it is a parameter \<open>hmac secret payload\<close> whose value is a
  256-bit digest, and \<open>digest_bytes\<close> are its 32 bytes, the most significant first.
\<close>

definition digest_bytes :: "256 word \<Rightarrow> byte list" where
  "digest_bytes d = map (\<lambda>i. ucast (drop_bit (8 * (31 - i)) d)) [0..<32]"

text \<open>\<^verbatim>\<open>s.split(sep)\<close> for a one-character separator, and \<^verbatim>\<open>xs[i]\<close> with \<open>None\<close> for \<^verbatim>\<open>undefined\<close>.\<close>

fun split :: "char \<Rightarrow> string \<Rightarrow> string list" where
  "split sep [] = [[]]"
| "split sep (c # cs) =
     (if c = sep then [] # split sep cs
      else (case split sep cs of w # ws \<Rightarrow> (c # w) # ws | [] \<Rightarrow> [[c]]))"

definition index :: "'a list \<Rightarrow> nat \<Rightarrow> 'a option" where
  "index xs i = (if i < length xs then Some (xs ! i) else None)"

text \<open>
  What can be thrown inside \<^verbatim>\<open>verifyWebhook\<close>: \<^verbatim>\<open>Buffer.from(undefined, 'hex')\<close> is a
  \<^verbatim>\<open>TypeError\<close>, \<^verbatim>\<open>crypto.timingSafeEqual\<close> on buffers of different lengths a
  \<^verbatim>\<open>RangeError\<close>.
\<close>

datatype js_exception = TypeError | RangeError

definition timingSafeEqual :: "byte list \<Rightarrow> byte list \<Rightarrow> js_exception + bool" where
  "timingSafeEqual a b = (if length a \<noteq> length b then Inl RangeError else Inr (a = b))"

text \<open>The header is \<open>None\<close> when the request carries none (\<^verbatim>\<open>undefined\<close>).\<close>

definition verifyWebhook ::
  "(string \<Rightarrow> byte list \<Rightarrow> 256 word) \<Rightarrow> byte list \<Rightarrow> string option \<Rightarrow> string
     \<Rightarrow> js_exception + bool" where
  "verifyWebhook hmac payloadBytes signatureHeader secret =
     (case signatureHeader of
        None \<Rightarrow> Inr False
      | Some hdr \<Rightarrow>
          if hdr = [] then Inr False
          else
            (case (if startsWith hdr ''sha256='' then index (split CHR ''='' hdr) 1 else Some hdr) of
               None \<Rightarrow> Inl TypeError
             | Some sigHex \<Rightarrow>
                 (let mac = hex_encode (digest_bytes (hmac secret payloadBytes));
                      sigBuf = buffer_from_hex sigHex;
                      macBuf = buffer_from_hex mac
                  in if length sigBuf \<noteq> length macBuf then Inr False
                     else timingSafeEqual sigBuf macBuf)))"

text \<open>Flipping bit \<open>i\<close> of the character at position \<open>j\<close> of a string.\<close>

definition flip_char :: "nat \<Rightarrow> char \<Rightarrow> char" where
  "flip_char i c = char_of (flip_bit i (of_char c :: nat))"

definition flip_at :: "nat \<Rightarrow> nat \<Rightarrow> string \<Rightarrow> string" where
  "flip_at j i s = s[j := flip_char i (s ! j)]"

text \<open>
  The hex text that the verifier decodes: what follows \<^verbatim>\<open>sha256=\<close> up to the next
  \<^verbatim>\<open>=\<close>, or the whole header.
\<close>

definition signature_hex :: "string \<Rightarrow> string" where
  "signature_hex hdr =
     (if startsWith hdr ''sha256='' then takeWhile (\<lambda>c. c \<noteq> CHR ''='') (drop 7 hdr) else hdr)"

text \<open>The value of the hex digit at position \<open>j\<close> of the encoding of \<open>bs\<close>.\<close>

definition nibble :: "byte list \<Rightarrow> nat \<Rightarrow> nat" where
  "nibble bs j =
     (if even j then unat (bs ! (j div 2)) div 16 else unat (bs ! (j div 2)) mod 16)"

subsection \<open>Concrete clients, responses and transports\<close>

definition plain_options :: options where
  "plain_options = \<lparr>http_method = ''GET'', headers = Map.empty, body = None\<rparr>"

definition answer :: "nat \<Rightarrow> string \<Rightarrow> response" where
  "answer s txt = \<lparr>status = s, headers_get = Map.empty, body_text = txt\<rparr>"

definition rate_limited :: "string \<Rightarrow> response" where
  "rate_limited retryAfter =
     \<lparr>status = 429, headers_get = [''Retry-After'' \<mapsto> retryAfter], body_text = ''slow down''\<rparr>"

text \<open>A transport that gives the same response to every attempt, one that gives a first
  response once and another one afterwards, and one that never connects.\<close>

definition always :: "response \<Rightarrow> transport" where
  "always r = (\<lambda>n url opts. Resolves r)"

definition first_then :: "response \<Rightarrow> response \<Rightarrow> transport" where
  "first_then r1 r2 = (\<lambda>n url opts. Resolves (if n = 1 then r1 else r2))"

definition unreachable :: transport where
  "unreachable = (\<lambda>n url opts. Rejects ''ECONNREFUSED'')"

text \<open>A transport that answers 200 with, as body, the value of one header of the request
  it was handed (empty when the request has no such header).\<close>

definition echo_header :: "string \<Rightarrow> transport" where
  "echo_header name =
     (\<lambda>n url opts. Resolves (answer 200 (case headers opts name of Some v \<Rightarrow> v | None \<Rightarrow> [])))"

text \<open>A \<^verbatim>\<open>JSON.parse\<close> that rejects every text, so that bodies come back as \<^verbatim>\<open>{ raw: text }\<close>.\<close>

definition no_json :: "string \<Rightarrow> json option" where
  "no_json txt = None"

text \<open>
  Stand-ins for \<^verbatim>\<open>JSON.parse\<close>, \<^verbatim>\<open>JSON.stringify\<close> and \<^verbatim>\<open>URLSearchParams\<close> at
  concrete inputs: a parser that decodes every body to a given value, and encoders whose
  output does not matter where they are used.
\<close>

definition parsed_as :: "json \<Rightarrow> string \<Rightarrow> json option" where
  "parsed_as j txt = Some j"

definition stub_stringify :: "json \<Rightarrow> string" where
  "stub_stringify j = ''{}''"

definition stub_form :: "(string \<times> string) list \<Rightarrow> string" where
  "stub_form kvs = ''a=b''"

text \<open>The text of \<^verbatim>\<open>{}\<close>, for a \<open>toStr\<close> where no array or object is added.\<close>

definition stub_toStr :: "json \<Rightarrow> string" where
  "stub_toStr v = ''[object Object]''"

text \<open>Clients: one with an API key and a cached token, one with the token only.\<close>

definition keyed_client :: client where
  "keyed_client =
     default_client\<lparr>apiKey := Some ''k1'',
                    token := Some \<lparr>access_token = ''t1'', expires_at = 5000\<rparr>\<rparr>"

definition token_client :: client where
  "token_client = default_client\<lparr>token := Some \<lparr>access_token = ''t1'', expires_at = 5000\<rparr>\<rparr>"


text \<open>Headers a caller passes, a \<^verbatim>\<open>request\<close> with a JSON body, and a payment.\<close>

definition caller_headers :: "string \<rightharpoonup> string" where
  "caller_headers = [''Authorization'' \<mapsto> ''Basic abc'', ''Content-Type'' \<mapsto> ''text/plain'']"

definition json_request :: request_args where
  "json_request = \<lparr>req_headers = caller_headers, params = None, data = None,
                    jsonBody = Some (JObj [])\<rparr>"

definition some_payment :: payment where
  "some_payment = \<lparr>amount = Some (JNum 100), merchantOrderId = Some (JStr ''ORD1''),
     channel = None, purpose = None, customer = None, pay_expires_in = None, metadata = None\<rparr>"

text \<open>
  HMAC-SHA256 at test case 2 of RFC 4231: key \<^verbatim>\<open>Jefe\<close>, data
  \<^verbatim>\<open>what do ya want for nothing?\<close>. The stand-in has the value of HMAC-SHA256 there and
  0 elsewhere.
\<close>

definition rfc4231_data :: "byte list" where
  "rfc4231_data = map of_char ''what do ya want for nothing?''"

definition rfc4231_hmac :: "string \<Rightarrow> byte list \<Rightarrow> 256 word" where
  "rfc4231_hmac key msg =
     (if key = ''Jefe'' \<and> msg = rfc4231_data
      then 0x5bdcc146bf60754e6a042426089575c75a003f089d2739839dec58b964ec3843 else 0)"

section \<open>The dispatcher: retries, delays, timers\<close>

lemmas run_simps =
  fetchWithRetry.simps try_block_def classify_def ok_def decode_body_def backoff_wait_def
  default_client_def plain_options_def answer_def rate_limited_def always_def first_then_def
  unreachable_def no_json_def

lemmas parseInt_simps =
  retry_after_wait_def parseInt_def parse_digits_def digits_value_def is_space_def is_digit_def

text \<open>One attempt whose \<^verbatim>\<open>fetch\<close> resolves, unfolded.\<close>

lemma step_resolved:
  assumes "fetch (Suc a) url opts = Resolves res"
  shows "fetchWithRetry parse c fetch url opts a =
     (case classify parse c url (Suc a) res of
        Returned j \<Rightarrow> ([SetTimer (Suc a), Fetch (Suc a), ClearTimer (Suc a)], Inr j)
      | Retrying wait \<Rightarrow>
          ([SetTimer (Suc a), Fetch (Suc a), ClearTimer (Suc a), Sleep wait]
             @ fst (fetchWithRetry parse c fetch url opts (Suc a)),
           snd (fetchWithRetry parse c fetch url opts (Suc a)))
      | Thrown err \<Rightarrow>
          if Suc a \<le> maxRetries c then
            ([SetTimer (Suc a), Fetch (Suc a), ClearTimer (Suc a), Sleep (backoff_wait c (Suc a))]
               @ fst (fetchWithRetry parse c fetch url opts (Suc a)),
             snd (fetchWithRetry parse c fetch url opts (Suc a)))
          else ([SetTimer (Suc a), Fetch (Suc a), ClearTimer (Suc a)], Inl err))"
  using assms
  by (subst fetchWithRetry.simps) (simp add: try_block_def Let_def split: attempt_result.splits)





text \<open>
  C1. The specification wants a 401 to end the call after one attempt. The thrown
  \<^verbatim>\<open>AuthError\<close> is raised inside the \<^verbatim>\<open>try\<close> block, so the \<^verbatim>\<open>catch\<close> clause meant for
  network and abort errors receives it and retries while the budget lasts: with the
  default configuration and a transport that always answers 401, the dispatcher makes
  four attempts, sleeping 500, 1000 and 2000 ms between them, before it fails with the
  \<^verbatim>\<open>AuthError\<close>.
\<close>

theorem auth_error_is_retried:
  "fetchWithRetry no_json default_client (always (answer 401 ''denied'')) ''u'' plain_options 0 =
   ([SetTimer 1, Fetch 1, ClearTimer 1, Sleep 500,
     SetTimer 2, Fetch 2, ClearTimer 2, Sleep 1000,
     SetTimer 3, Fetch 3, ClearTimer 3, Sleep 2000,
     SetTimer 4, Fetch 4, ClearTimer 4], Inl (AuthError 401 ''denied''))"
  by (simp add: run_simps)

text \<open>
  C8. The specification wants the abort timer of an attempt cleared on every way out
  of the attempt. \<^verbatim>\<open>clearTimeout(id)\<close> follows the awaited \<^verbatim>\<open>fetch\<close>, so it runs when
  \<^verbatim>\<open>fetch\<close> resolves and is skipped when \<^verbatim>\<open>fetch\<close> rejects: with no retries and a
  transport that refuses the connection, the call ends with timer 1 set and never
  cleared, where the same call against a transport that answers 200 clears it.
\<close>

theorem timer_left_set_on_rejection:
  "fetchWithRetry no_json (default_client\<lparr>maxRetries := 0\<rparr>) unreachable ''u'' plain_options 0 =
     ([SetTimer 1, Fetch 1], Inl (FetchRejected ''ECONNREFUSED'')) \<and>
   ClearTimer 1 \<notin> set (fst (fetchWithRetry no_json (default_client\<lparr>maxRetries := 0\<rparr>)
                              unreachable ''u'' plain_options 0)) \<and>
   fetchWithRetry no_json (default_client\<lparr>maxRetries := 0\<rparr>) (always (answer 200 ''done''))
       ''u'' plain_options 0 =
     ([SetTimer 1, Fetch 1, ClearTimer 1], Inr (JObj [(''raw'', JStr ''done'')]))"
  by (simp add: run_simps)

text \<open>
  C2, as the specification states it, fails: the wait is not the larger of the Retry-After value
  and the exponential delay. With \<^verbatim>\<open>Retry-After: 1\<close> and \<open>backoffFactor = 5\<close> the
  exponential delay of the first attempt is 5 seconds, and the dispatcher hands
  \<^verbatim>\<open>setTimeout\<close> the parsed header value alone.
\<close>

theorem retry_after_not_max_counterexample:
  "sleeps (fst (fetchWithRetry no_json (default_client\<lparr>backoffFactor := 5\<rparr>)
      (first_then (rate_limited ''1'') (answer 200 ''done'')) ''u'' plain_options 0))
     \<noteq> [max (1 * 1000) (backoffFactor (default_client\<lparr>backoffFactor := 5\<rparr>) * 2 ^ (1 - 1) * 1000)]"
  by (simp add: run_simps parseInt_simps)

text \<open>
  C2, amended. For a 429 response with a non-empty \<^verbatim>\<open>Retry-After\<close> header, while the
  attempt count has not exceeded \<open>maxRetries\<close>, the dispatcher sleeps once and makes
  the next attempt, whose outcome is the outcome of the call. When the header is
  unparsable, or parses to 0, the wait is the exponential delay
  \<open>backoffFactor * 2 ^ (attempt - 1)\<close> seconds. When it parses to a non-zero integer, the
  wait is taken from the header alone: it is the same under any other configuration
  \<open>c'\<close> and attempt number \<open>a'\<close>, so the exponential delay has no part in it.
\<close>

theorem rate_limit_retry_wait:
  assumes "fetch (Suc a) url opts = Resolves res" and "status res = 429"
    and "headers_get res ''Retry-After'' = Some retryAfter" and "retryAfter \<noteq> []"
    and "Suc a \<le> maxRetries c"
  shows "\<exists>wait.
      fetchWithRetry parse c fetch url opts a =
        ([SetTimer (Suc a), Fetch (Suc a), ClearTimer (Suc a), Sleep wait]
           @ fst (fetchWithRetry parse c fetch url opts (Suc a)),
         snd (fetchWithRetry parse c fetch url opts (Suc a))) \<and>
      (parseInt retryAfter = None \<or> parseInt retryAfter = Some 0
         \<longrightarrow> wait = backoffFactor c * 2 ^ (Suc a - 1) * 1000) \<and>
      (\<forall>n. parseInt retryAfter = Some n \<and> n \<noteq> 0
         \<longrightarrow> wait = retry_after_wait c' a' retryAfter)"
proof -
  have "classify parse c url (Suc a) res = Retrying (retry_after_wait c (Suc a) retryAfter)"
    using assms(2-5) by (simp add: classify_def ok_def)
  then have "fetchWithRetry parse c fetch url opts a =
        ([SetTimer (Suc a), Fetch (Suc a), ClearTimer (Suc a),
          Sleep (retry_after_wait c (Suc a) retryAfter)]
           @ fst (fetchWithRetry parse c fetch url opts (Suc a)),
         snd (fetchWithRetry parse c fetch url opts (Suc a)))"
    by (simp add: step_resolved [where fetch = fetch, OF assms(1)])
  moreover have "parseInt retryAfter = None \<or> parseInt retryAfter = Some 0
      \<longrightarrow> retry_after_wait c (Suc a) retryAfter = backoffFactor c * 2 ^ (Suc a - 1) * 1000"
    by (auto simp: retry_after_wait_def backoff_wait_def)
  moreover have "\<forall>n. parseInt retryAfter = Some n \<and> n \<noteq> 0
      \<longrightarrow> retry_after_wait c (Suc a) retryAfter = retry_after_wait c' a' retryAfter"
    by (auto simp: retry_after_wait_def)
  ultimately show ?thesis by blast
qed

theorem rate_limit_retry_wait_witness:
  "first_then (rate_limited ''soon'') (answer 200 ''done'') (Suc 0) ''u'' plain_options
     = Resolves (rate_limited ''soon'') \<and>
   status (rate_limited ''soon'') = 429 \<and>
   headers_get (rate_limited ''soon'') ''Retry-After'' = Some ''soon'' \<and>
   ''soon'' \<noteq> [] \<and> Suc 0 \<le> maxRetries default_client \<and>
   parseInt ''soon'' = None \<and>
   fetchWithRetry no_json default_client (first_then (rate_limited ''soon'') (answer 200 ''done''))
       ''u'' plain_options 0 =
     ([SetTimer 1, Fetch 1, ClearTimer 1, Sleep 500, SetTimer 2, Fetch 2, ClearTimer 2],
      Inr (JObj [(''raw'', JStr ''done'')]))"
proof -
  have h1: "first_then (rate_limited ''soon'') (answer 200 ''done'') (Suc 0) ''u'' plain_options
      = Resolves (rate_limited ''soon'')"
    by (simp add: first_then_def)
  have h2: "status (rate_limited ''soon'') = 429"
    and h3: "headers_get (rate_limited ''soon'') ''Retry-After'' = Some ''soon''"
    by (simp_all add: rate_limited_def)
  have h4: "''soon'' \<noteq> []" by simp
  have h5: "Suc 0 \<le> maxRetries default_client" by (simp add: default_client_def)
  have p: "parseInt ''soon'' = None" by (simp add: parseInt_simps)
  have rest: "fetchWithRetry no_json default_client
      (first_then (rate_limited ''soon'') (answer 200 ''done'')) ''u'' plain_options (Suc 0)
      = ([SetTimer 2, Fetch 2, ClearTimer 2], Inr (JObj [(''raw'', JStr ''done'')]))"
    by (simp add: run_simps)
  from rate_limit_retry_wait
    [where fetch = "first_then (rate_limited ''soon'') (answer 200 ''done'')" and a = 0
       and url = "''u''" and opts = plain_options and parse = no_json and c = default_client,
     OF h1 h2 h3 h4 h5]
  obtain wait where
    "fetchWithRetry no_json default_client (first_then (rate_limited ''soon'') (answer 200 ''done''))
       ''u'' plain_options 0 =
      ([SetTimer (Suc 0), Fetch (Suc 0), ClearTimer (Suc 0), Sleep wait]
         @ fst (fetchWithRetry no_json default_client
                  (first_then (rate_limited ''soon'') (answer 200 ''done'')) ''u'' plain_options (Suc 0)),
       snd (fetchWithRetry no_json default_client
              (first_then (rate_limited ''soon'') (answer 200 ''done'')) ''u'' plain_options (Suc 0)))"
    and "wait = backoffFactor default_client * 2 ^ (Suc 0 - 1) * 1000"
    using p by blast
  then show ?thesis
    using h1 h2 h3 h5 p rest by (simp add: default_client_def)
qed

text \<open>
  The dispatcher asks the transport about the URL and options it was given and nothing
  else: two transports that answer alike there give the same call.
\<close>

lemma try_block_cong:
  "fetch n url opts = fetch' n url opts \<Longrightarrow>
   try_block parse c fetch url opts n = try_block parse c fetch' url opts n"
  by (simp add: try_block_def)

lemma fetchWithRetry_cong:
  assumes "\<forall>n. fetch n url opts = fetch' n url opts"
  shows "fetchWithRetry parse c fetch url opts a = fetchWithRetry parse c fetch' url opts a"
proof (induction "Suc (maxRetries c) - a" arbitrary: a rule: less_induct)
  case less
  have tb: "try_block parse c fetch url opts (a + 1) = try_block parse c fetch' url opts (a + 1)"
    by (rule try_block_cong) (simp add: assms)
  have rec: "fetchWithRetry parse c fetch url opts (Suc a)
      = fetchWithRetry parse c fetch' url opts (Suc a)" if "Suc a \<le> maxRetries c"
  proof (rule less)
    show "Suc (maxRetries c) - Suc a < Suc (maxRetries c) - a" using that by simp
  qed
  have retry: "Suc a \<le> maxRetries c"
    if "snd (try_block parse c fetch' url opts (Suc a)) = Retrying w" for w
    using that by (rule try_block_Retrying)
  show ?case
    unfolding fetchWithRetry.simps [of parse c fetch url opts a]
      fetchWithRetry.simps [of parse c fetch' url opts a] tb Let_def
    by (auto split: attempt_result.splits simp: rec dest: retry)
qed

section \<open>Credentials and headers\<close>

lemma empty_is_no_singleton: "(Map.empty = [k \<mapsto> v]) = False"
proof
  assume "Map.empty = [k \<mapsto> v]"
  then have "(Map.empty :: 'a \<rightharpoonup> 'b) k = [k \<mapsto> v] k" by (rule arg_cong)
  then show False by simp
qed simp

text \<open>
  C6. With a static API key configured (a non-empty string), \<^verbatim>\<open>_authHeader\<close> returns
  \<^verbatim>\<open>Authorization: Bearer <apiKey>\<close>, whatever token is cached. Without one, it returns
  the cached token's bearer header exactly when a token is stored and more than 10
  seconds remain before its expiry, and the empty header set otherwise. The client is
  left as it was.
\<close>

theorem authHeader_selection:
  "(\<forall>k. apiKey c = Some k \<and> k \<noteq> [] \<longrightarrow>
        fst (authHeader c now) = [''Authorization'' \<mapsto> ''Bearer '' @ k]) \<and>
   (\<not> truthy_string (apiKey c) \<longrightarrow>
      (\<forall>tk. token c = Some tk \<longrightarrow>
         (fst (authHeader c now) = [''Authorization'' \<mapsto> ''Bearer '' @ access_token tk])
           = (10 < expires_at tk - real_of_int now / 1000)) \<and>
      (\<not> (\<exists>tk. token c = Some tk \<and> 10 < expires_at tk - real_of_int now / 1000) \<longrightarrow>
         fst (authHeader c now) = Map.empty)) \<and>
   snd (authHeader c now) = c"
  by (auto simp: authHeader_def token_header_def truthy_string_def empty_is_no_singleton
      split: option.splits)

theorem authHeader_selection_witness:
  "apiKey keyed_client = Some ''k1'' \<and> ''k1'' \<noteq> [] \<and>
   fst (authHeader keyed_client 1000000) = [''Authorization'' \<mapsto> ''Bearer k1''] \<and>
   \<not> truthy_string (apiKey token_client) \<and>
   token token_client = Some \<lparr>access_token = ''t1'', expires_at = 5000\<rparr> \<and>
   fst (authHeader token_client 1000000) = [''Authorization'' \<mapsto> ''Bearer t1''] \<and>
   fst (authHeader token_client 4990000) = Map.empty"
  using authHeader_selection [of keyed_client 1000000]
    authHeader_selection [of token_client 1000000]
    authHeader_selection [of token_client 4990000]
  by (simp add: keyed_client_def token_client_def default_client_def truthy_string_def)

text \<open>The auth provider generates no header but \<^verbatim>\<open>Authorization\<close>.\<close>

lemma authHeader_names: "h \<noteq> ''Authorization'' \<Longrightarrow> fst (authHeader c now) h = None"
  by (simp add: authHeader_def token_header_def split: option.splits)

lemma char_is_char_of: "(ch = char_of n) = (take_bit 8 n = (of_char ch :: nat))" for n :: nat
  using char_of_eq_iff [of n ch] by auto

text \<open>
  C10, as the specification states it, fails for a caller header that names an automatic
  header in another letter case. The headers are merged as keys of a JavaScript object,
  which are compared exactly: a caller's \<^verbatim>\<open>content-type\<close> does not replace the
  automatic \<^verbatim>\<open>Content-Type: application/json\<close>, nor a caller's \<^verbatim>\<open>authorization\<close> the
  automatic \<^verbatim>\<open>Authorization\<close>; the transport is handed both.
\<close>

theorem header_case_counterexample:
  "same_header_name ''content-type'' ''Content-Type'' \<and>
   headers (createPayment_options stub_stringify keyed_client 0 some_payment
              [''content-type'' \<mapsto> ''text/plain'']) ''Content-Type''
     = Some ''application/json'' \<and>
   same_header_name ''authorization'' ''Authorization'' \<and>
   headers (request_options stub_stringify stub_form keyed_client 0 ''POST''
              (json_request\<lparr>req_headers := [''authorization'' \<mapsto> ''Basic abc'']\<rparr>))
       ''Authorization''
     = Some ''Bearer k1''"
  by (simp add: same_header_name_def lower_def char_is_char_of createPayment_options_def
      request_options_def authHeader_def keyed_client_def default_client_def json_request_def
      truthy_json_def Let_def)

text \<open>
  C10, amended. The options that \<^verbatim>\<open>createPayment\<close> and \<^verbatim>\<open>request\<close> hand to the
  transport have exactly these headers: every header of the caller with the caller's
  value, and under every other name the automatic header of that name, if there is one:
  \<^verbatim>\<open>Content-Type\<close> of the body encoding (JSON for \<^verbatim>\<open>createPayment\<close> and for a
  \<^verbatim>\<open>request\<close> with a JSON body, form encoding for a \<^verbatim>\<open>request\<close> with data, none
  otherwise) and \<^verbatim>\<open>Authorization\<close> of the auth provider. So a caller header spelled
  exactly like an automatic one overrides it, and an automatic header goes out with its
  own value when the caller passes none of exactly that name. The outcome of either call
  depends on the transport through its answers to this URL with these options only.
\<close>

theorem caller_headers_override:
  "(\<forall>h. headers (createPayment_options stringify c now p extraHeaders) h =
      (case extraHeaders h of
         Some v \<Rightarrow> Some v
       | None \<Rightarrow> if h = ''Content-Type'' then Some ''application/json''
                 else fst (authHeader c now) h)) \<and>
   (\<forall>h. headers (request_options stringify form c now meth args) h =
      (case req_headers args h of
         Some v \<Rightarrow> Some v
       | None \<Rightarrow> if h = ''Content-Type'' \<and> truthy_json (jsonBody args)
                 then Some ''application/json''
                 else if h = ''Content-Type'' \<and> truthy_data (data args)
                 then Some ''application/x-www-form-urlencoded''
                 else fst (authHeader c now) h)) \<and>
   (\<forall>h \<in> dom extraHeaders.
      headers (createPayment_options stringify c now p extraHeaders) h = extraHeaders h) \<and>
   (\<forall>h \<in> dom (req_headers args).
      headers (request_options stringify form c now meth args) h = req_headers args h) \<and>
   ((\<forall>n. fetch n (createPayment_url c) (createPayment_options stringify c now p extraHeaders)
         = fetch' n (createPayment_url c) (createPayment_options stringify c now p extraHeaders))
      \<longrightarrow> createPayment parse stringify c fetch now p extraHeaders
          = createPayment parse stringify c fetch' now p extraHeaders) \<and>
   ((\<forall>n. fetch n (request_url form c pathOrUrl (params args))
              (request_options stringify form c now meth args)
         = fetch' n (request_url form c pathOrUrl (params args))
              (request_options stringify form c now meth args))
      \<longrightarrow> request parse stringify form c fetch now meth pathOrUrl args
          = request parse stringify form c fetch' now meth pathOrUrl args)"
proof -
  have pay: "headers (createPayment_options stringify c now p extraHeaders) h =
      (case extraHeaders h of
         Some v \<Rightarrow> Some v
       | None \<Rightarrow> if h = ''Content-Type'' then Some ''application/json''
                 else fst (authHeader c now) h)" for h
    using authHeader_names [of h c now]
    by (auto simp: createPayment_options_def map_add_def split: option.splits)
  have req: "headers (request_options stringify form c now meth args) h =
      (case req_headers args h of
         Some v \<Rightarrow> Some v
       | None \<Rightarrow> if h = ''Content-Type'' \<and> truthy_json (jsonBody args)
                 then Some ''application/json''
                 else if h = ''Content-Type'' \<and> truthy_data (data args)
                 then Some ''application/x-www-form-urlencoded''
                 else fst (authHeader c now) h)" for h
    using authHeader_names [of h c now]
    by (auto simp: request_options_def Let_def map_add_def split: option.splits)
  have pay_dom: "\<forall>h \<in> dom extraHeaders.
      headers (createPayment_options stringify c now p extraHeaders) h = extraHeaders h"
    by (auto simp: pay)
  have req_dom: "\<forall>h \<in> dom (req_headers args).
      headers (request_options stringify form c now meth args) h = req_headers args h"
    by (auto simp: req)
  have pay_sent: "createPayment parse stringify c fetch now p extraHeaders
      = createPayment parse stringify c fetch' now p extraHeaders"
    if "\<forall>n. fetch n (createPayment_url c) (createPayment_options stringify c now p extraHeaders)
         = fetch' n (createPayment_url c) (createPayment_options stringify c now p extraHeaders)"
    unfolding createPayment_def using that by (rule fetchWithRetry_cong)
  have req_sent: "request parse stringify form c fetch now meth pathOrUrl args
      = request parse stringify form c fetch' now meth pathOrUrl args"
    if "\<forall>n. fetch n (request_url form c pathOrUrl (params args))
              (request_options stringify form c now meth args)
         = fetch' n (request_url form c pathOrUrl (params args))
              (request_options stringify form c now meth args)"
    unfolding request_def using that by (rule fetchWithRetry_cong)
  show ?thesis
    using pay req pay_dom req_dom pay_sent req_sent by blast
qed

theorem caller_headers_override_witness:
  "''Authorization'' \<in> dom caller_headers \<and>
   headers (createPayment_options stub_stringify keyed_client 0 some_payment caller_headers)
       ''Authorization'' = Some ''Basic abc'' \<and>
   headers (createPayment_options stub_stringify keyed_client 0 some_payment caller_headers)
       ''Content-Type'' = Some ''text/plain'' \<and>
   headers (createPayment_options stub_stringify keyed_client 0 some_payment Map.empty)
       ''Authorization'' = Some ''Bearer k1'' \<and>
   headers (createPayment_options stub_stringify keyed_client 0 some_payment Map.empty)
       ''Content-Type'' = Some ''application/json'' \<and>
   headers (request_options stub_stringify stub_form keyed_client 0 ''POST'' json_request)
       ''Content-Type'' = Some ''text/plain'' \<and>
   snd (createPayment no_json stub_stringify keyed_client (echo_header ''Authorization'') 0
          some_payment caller_headers) = Inr (JObj [(''raw'', JStr ''Basic abc'')]) \<and>
   snd (createPayment no_json stub_stringify keyed_client (echo_header ''Authorization'') 0
          some_payment Map.empty) = Inr (JObj [(''raw'', JStr ''Bearer k1'')])"
proof -
  note T = caller_headers_override
    [where stringify = stub_stringify and c = keyed_client and now = 0 and p = some_payment
       and form = stub_form and meth = "''POST''" and args = json_request]
  note pay = T [where extraHeaders = caller_headers, THEN conjunct1, THEN spec]
  note pay0 = T [where extraHeaders = Map.empty, THEN conjunct1, THEN spec]
  note req = T [THEN conjunct2, THEN conjunct1, THEN spec]
  have d: "''Authorization'' \<in> dom caller_headers"
    by (simp add: caller_headers_def)
  have a1: "headers (createPayment_options stub_stringify keyed_client 0 some_payment caller_headers)
       ''Authorization'' = Some ''Basic abc''"
    using pay [of "''Authorization''"] by (simp add: caller_headers_def)
  have a2: "headers (createPayment_options stub_stringify keyed_client 0 some_payment caller_headers)
       ''Content-Type'' = Some ''text/plain''"
    using pay [of "''Content-Type''"] by (simp add: caller_headers_def)
  have a3: "headers (createPayment_options stub_stringify keyed_client 0 some_payment Map.empty)
       ''Authorization'' = Some ''Bearer k1''"
    using pay0 [of "''Authorization''"]
    by (simp add: authHeader_def keyed_client_def default_client_def)
  have a4: "headers (createPayment_options stub_stringify keyed_client 0 some_payment Map.empty)
       ''Content-Type'' = Some ''application/json''"
    using pay0 [of "''Content-Type''"] by simp
  have a5: "headers (request_options stub_stringify stub_form keyed_client 0 ''POST'' json_request)
       ''Content-Type'' = Some ''text/plain''"
    using req [of "''Content-Type''"] by (simp add: json_request_def caller_headers_def)
  have e1: "snd (createPayment no_json stub_stringify keyed_client (echo_header ''Authorization'') 0
          some_payment caller_headers) = Inr (JObj [(''raw'', JStr ''Basic abc'')])"
    by (simp add: createPayment_def fetchWithRetry.simps try_block_def classify_def ok_def
        decode_body_def echo_header_def answer_def no_json_def a1)
  have e2: "snd (createPayment no_json stub_stringify keyed_client (echo_header ''Authorization'') 0
          some_payment Map.empty) = Inr (JObj [(''raw'', JStr ''Bearer k1'')])"
    by (simp add: createPayment_def fetchWithRetry.simps try_block_def classify_def ok_def
        decode_body_def echo_header_def answer_def no_json_def a3)
  show ?thesis
    by (intro conjI) (rule d a1 a2 a3 a4 a5 e1 e2)+
qed

section \<open>Login\<close>

lemmas login_simps =
  loginWithPassword_def truthy_string_def truthy_prop_def login_expiry_def js_plus_def
  decimal_def digits_of.simps oauth_client_def parsed_as_def login_url_def login_options_def
  Let_def

text \<open>
  C7, as the specification states it, fails in two places. Where the response holds
  \<^verbatim>\<open>expires_at: 0\<close> the field is present, and the stored expiry is not 0 but the clock
  plus \<^verbatim>\<open>expires_in\<close>, since \<^verbatim>\<open>||\<close> takes a zero for a missing value: at 1000 seconds
  on the clock and \<^verbatim>\<open>expires_in: 3600\<close> the token expires at 4600. And where
  \<^verbatim>\<open>expires_in\<close> is the string \<^verbatim>\<open>"3600"\<close>, \<^verbatim>\<open>+\<close> concatenates: the stored expiry is
  the string \<^verbatim>\<open>"10003600"\<close>, not 4600.
\<close>

theorem login_coercion_counterexample:
  "map_of [(''access_token'', JStr ''t''), (''expires_at'', JNum 0), (''expires_in'', JNum 3600)]
     ''expires_at'' = Some (JNum 0) \<and>
   snd (loginWithPassword
      (parsed_as (JObj [(''access_token'', JStr ''t''), (''expires_at'', JNum 0),
                        (''expires_in'', JNum 3600)]))
      stub_toStr stub_form oauth_client (always (answer 200 ''body'')) 1000000
      ''user'' ''pass'' ''password'')
     = Inr \<lparr>access_token = JStr ''t'', expires_at = JNum 4600\<rparr> \<and>
   JNum 4600 \<noteq> JNum 0 \<and>
   snd (loginWithPassword
      (parsed_as (JObj [(''access_token'', JStr ''t''), (''expires_in'', JStr ''3600'')]))
      stub_toStr stub_form oauth_client (always (answer 200 ''body'')) 1000000
      ''user'' ''pass'' ''password'')
     = Inr \<lparr>access_token = JStr ''t'', expires_at = JStr ''10003600''\<rparr>"
  by (simp add: login_simps run_simps)

text \<open>
  C7, amended. \<^verbatim>\<open>loginWithPassword\<close> fails with the credentials error when
  \<^verbatim>\<open>clientId\<close> or \<^verbatim>\<open>clientSecret\<close> is missing or empty, with the dispatcher's error
  when the dispatch fails, and with the login error when the dispatched response is
  falsy or has no truthy \<^verbatim>\<open>access_token\<close>. In every other case it succeeds: it stores,
  in place of any earlier token, and returns a token with the response's access token
  and an expiry that is the response's \<^verbatim>\<open>expires_at\<close> when that is present and truthy
  (for a number: not zero), and otherwise, for an \<^verbatim>\<open>expires_in\<close> that is missing, falsy
  or a number, the clock in whole seconds plus \<^verbatim>\<open>expires_in\<close> (plus 0 when missing or
  falsy). Nothing is stated of the expiry computed from an \<^verbatim>\<open>expires_in\<close> that is truthy
  and not a number. Whenever the login fails, the client, and so the stored token, is
  what it was.
\<close>

theorem login_outcomes:
  "(\<not> truthy_string (clientId c) \<or> \<not> truthy_string (clientSecret c) \<longrightarrow>
      loginWithPassword parse toStr form c fetch now username password grant_type
        = (c, Inl CredentialsRequired)) \<and>
   (truthy_string (clientId c) \<and> truthy_string (clientSecret c) \<longrightarrow>
      (\<forall>err. snd (fetchWithRetry parse c fetch (login_url c)
                    (login_options form c username password grant_type) 0) = Inl err \<longrightarrow>
         loginWithPassword parse toStr form c fetch now username password grant_type
           = (c, Inl err)) \<and>
      (\<forall>res. snd (fetchWithRetry parse c fetch (login_url c)
                    (login_options form c username password grant_type) 0) = Inr res \<longrightarrow>
         (\<not> truthy res \<or> truthy_prop res ''access_token'' = None \<longrightarrow>
            loginWithPassword parse toStr form c fetch now username password grant_type
              = (c, Inl LoginFailed)) \<and>
         (\<forall>tok. truthy_prop res ''access_token'' = Some tok \<longrightarrow>
            (\<exists>expiry.
               loginWithPassword parse toStr form c fetch now username password grant_type
                 = (c\<lparr>token := Some \<lparr>access_token = tok, expires_at = expiry\<rparr>\<rparr>,
                    Inr \<lparr>access_token = tok, expires_at = expiry\<rparr>) \<and>
               (\<forall>v. truthy_prop res ''expires_at'' = Some v \<longrightarrow> expiry = v) \<and>
               (truthy_prop res ''expires_at'' = None \<longrightarrow>
                  (truthy_prop res ''expires_in'' = None \<longrightarrow>
                     expiry = JNum (of_int \<lfloor>real_of_int now / 1000\<rfloor>)) \<and>
                  (\<forall>y. truthy_prop res ''expires_in'' = Some (JNum y) \<longrightarrow>
                     expiry = JNum (of_int \<lfloor>real_of_int now / 1000\<rfloor> + y))))))) \<and>
   (\<forall>c' err. loginWithPassword parse toStr form c fetch now username password grant_type
        = (c', Inl err) \<longrightarrow> c' = c)"
proof -
  have truthy_obj: "truthy res" if "truthy_prop res k = Some v" for res k v
    using that by (cases res) (simp_all add: truthy_prop_def)
  show ?thesis
    by (auto simp: loginWithPassword_def Let_def login_expiry_def js_plus_def
        dest: truthy_obj split: sum.splits option.splits if_splits)
qed

theorem login_outcomes_witness:
  "\<not> truthy_string (clientId (oauth_client\<lparr>clientId := None\<rparr>)) \<and>
   loginWithPassword (parsed_as (JObj [(''access_token'', JStr ''t''), (''expires_at'', JNum 9999)]))
      stub_toStr stub_form (oauth_client\<lparr>clientId := None\<rparr>) (always (answer 200 ''body''))
      1000000 ''user'' ''pass'' ''password''
     = (oauth_client\<lparr>clientId := None\<rparr>, Inl CredentialsRequired) \<and>
   truthy_string (clientId oauth_client) \<and> truthy_string (clientSecret oauth_client) \<and>
   loginWithPassword (parsed_as (JObj [(''access_token'', JStr ''t''), (''expires_in'', JNum 3600)]))
      stub_toStr stub_form oauth_client (always (answer 200 ''body'')) 1000000
      ''user'' ''pass'' ''password''
     = (oauth_client\<lparr>token := Some \<lparr>access_token = JStr ''t'', expires_at = JNum 4600\<rparr>\<rparr>,
        Inr \<lparr>access_token = JStr ''t'', expires_at = JNum 4600\<rparr>)"
proof -
  have missing: "\<not> truthy_string (clientId (oauth_client\<lparr>clientId := None\<rparr>))"
    by (simp add: truthy_string_def)
  have present: "truthy_string (clientId oauth_client)" "truthy_string (clientSecret oauth_client)"
    by (simp_all add: truthy_string_def oauth_client_def)
  have run: "loginWithPassword
      (parsed_as (JObj [(''access_token'', JStr ''t''), (''expires_in'', JNum 3600)]))
      stub_toStr stub_form oauth_client (always (answer 200 ''body'')) 1000000
      ''user'' ''pass'' ''password''
     = (oauth_client\<lparr>token := Some \<lparr>access_token = JStr ''t'', expires_at = JNum 4600\<rparr>\<rparr>,
        Inr \<lparr>access_token = JStr ''t'', expires_at = JNum 4600\<rparr>)"
    by (simp add: login_simps run_simps)
  from login_outcomes
    [where c = "oauth_client\<lparr>clientId := None\<rparr>" and now = 1000000 and form = stub_form
       and toStr = stub_toStr and fetch = "always (answer 200 ''body'')"
       and username = "''user''" and password = "''pass''" and grant_type = "''password''"
       and parse = "parsed_as (JObj [(''access_token'', JStr ''t''), (''expires_at'', JNum 9999)])"]
    missing
  have "loginWithPassword
      (parsed_as (JObj [(''access_token'', JStr ''t''), (''expires_at'', JNum 9999)]))
      stub_toStr stub_form (oauth_client\<lparr>clientId := None\<rparr>) (always (answer 200 ''body''))
      1000000 ''user'' ''pass'' ''password''
     = (oauth_client\<lparr>clientId := None\<rparr>, Inl CredentialsRequired)"
    by blast
  then show ?thesis
    using run missing present by simp
qed

section \<open>The webhook verifier\<close>

subsection \<open>Hex text and digests\<close>

lemma unhex_hex_digit: "n < 16 \<Longrightarrow> unhex (hex_digit n) = Some n"
proof -
  assume "n < 16"
  then have "n \<in> {0, 1, 2, 3, 4, 5, 6, 7, 8, 9, 10, 11, 12, 13, 14, 15}" by simp arith
  then show ?thesis
    by (auto simp: unhex_def hex_digit_def)
qed

lemma unhex_less: "unhex c = Some v \<Longrightarrow> v < 16"
  by (auto simp: unhex_def Let_def split: if_splits)

lemma byte_nibbles: "unat (b :: byte) div 16 < 16" "unat b mod 16 < 16"
  using unsigned_less [of b, where ?'a = nat] by simp_all

lemma decode_encode: "buffer_from_hex (hex_encode bs) = bs"
  by (induction bs) (simp_all add: unhex_hex_digit byte_nibbles del: of_nat_add of_nat_mult)

lemma length_hex_encode: "length (hex_encode bs) = 2 * length bs"
  by (induction bs) simp_all

lemma length_digest_bytes: "length (digest_bytes d) = 32"
  by (simp add: digest_bytes_def)

lemma digest_bytes_inj: "digest_bytes d = digest_bytes d' \<Longrightarrow> d = d'"
proof (rule bit_word_eqI)
  fix n assume eq: "digest_bytes d = digest_bytes d'" and n: "n < LENGTH(256)"
  let ?i = "31 - n div 8"
  have i: "?i < 32" by simp
  have "digest_bytes d ! ?i = digest_bytes d' ! ?i" using eq by simp
  then have e: "(ucast (drop_bit (8 * (31 - ?i)) d) :: byte) = ucast (drop_bit (8 * (31 - ?i)) d')"
    using i unfolding digest_bytes_def by (simp del: upt_Suc)
  have k: "8 * (31 - ?i) + n mod 8 = n" using n by simp
  have "bit (ucast (drop_bit (8 * (31 - ?i)) d) :: byte) (n mod 8) = bit d n"
    using k by (simp add: bit_ucast_iff bit_drop_bit_eq)
  moreover have "bit (ucast (drop_bit (8 * (31 - ?i)) d') :: byte) (n mod 8) = bit d' n"
    using k by (simp add: bit_ucast_iff bit_drop_bit_eq)
  ultimately show "bit d n = bit d' n" using e by simp
qed

lemma split_Cons: "\<exists>w ws. split sep s = w # ws \<and> w = takeWhile (\<lambda>c. c \<noteq> sep) s"
  by (induction s) auto

lemma split_prefix: "split CHR ''='' (''sha256='' @ r) = ''sha256'' # split CHR ''='' r"
  by simp

lemma index_split_prefix:
  assumes "startsWith hdr ''sha256=''"
  shows "index (split CHR ''='' hdr) (Suc 0) = Some (takeWhile (\<lambda>c. c \<noteq> CHR ''='') (drop 7 hdr))"
proof -
  have len: "length ''sha256='' = 7" by simp
  from assms have "take 7 hdr = ''sha256=''"
    unfolding startsWith_def len .
  then have "''sha256='' @ drop 7 hdr = hdr"
    using append_take_drop_id [of 7 hdr] by simp
  then have "split CHR ''='' hdr = ''sha256'' # split CHR ''='' (drop 7 hdr)"
    using split_prefix [of "drop 7 hdr"] by simp
  moreover obtain w ws where "split CHR ''='' (drop 7 hdr) = w # ws"
      "w = takeWhile (\<lambda>c. c \<noteq> CHR ''='') (drop 7 hdr)"
    using split_Cons by blast
  ultimately show ?thesis
    by (simp add: index_def)
qed


lemma verifyWebhook_eq:
  "hdr \<noteq> [] \<Longrightarrow>
   verifyWebhook hmac p (Some hdr) s
     = Inr (buffer_from_hex (signature_hex hdr) = digest_bytes (hmac s p))"
  by (auto simp: verifyWebhook_def index_split_prefix signature_hex_def decode_encode
      timingSafeEqual_def Let_def)

lemma unhex_eq_sign: "unhex CHR ''='' = None"
  by (simp add: unhex_def)

lemma decode_takeWhile:
  "buffer_from_hex (takeWhile (\<lambda>c. c \<noteq> CHR ''='') s) = buffer_from_hex s"
proof (induction s rule: buffer_from_hex.induct)
  case (1 a b rest)
  then show ?case
    by (cases "a = CHR ''=''"; cases "b = CHR ''=''")
       (auto simp: unhex_eq_sign split: option.splits)
qed (auto simp: unhex_eq_sign)

lemma decode_length_bound:
  "2 * length (buffer_from_hex s) \<le> length (takeWhile (\<lambda>c. unhex c \<noteq> None) s)"
  by (induction s rule: buffer_from_hex.induct) (auto split: option.splits)

lemma prefixed_signature_hex:
  "signature_hex (''sha256='' @ sig) = takeWhile (\<lambda>c. c \<noteq> CHR ''='') sig"
  by (simp add: signature_hex_def startsWith_def)

lemma digest_not_Nil: "digest_bytes d \<noteq> []"
  using length_digest_bytes [of d] by auto

lemma verify_prefixed:
  assumes "\<not> startsWith sig ''sha256=''"
  shows "verifyWebhook hmac p (Some (''sha256='' @ sig)) s = verifyWebhook hmac p (Some sig) s"
proof -
  have "''sha256='' @ sig \<noteq> []" by simp
  then have "verifyWebhook hmac p (Some (''sha256='' @ sig)) s
      = Inr (buffer_from_hex (signature_hex (''sha256='' @ sig)) = digest_bytes (hmac s p))"
    by (rule verifyWebhook_eq)
  then have l: "verifyWebhook hmac p (Some (''sha256='' @ sig)) s
      = Inr (buffer_from_hex sig = digest_bytes (hmac s p))"
    by (simp only: prefixed_signature_hex decode_takeWhile)
  show ?thesis
  proof (cases "sig = []")
    case True
    then show ?thesis
      using l digest_not_Nil [of "hmac s p"] by (auto simp: verifyWebhook_def)
  next
    case False
    then have "verifyWebhook hmac p (Some sig) s
        = Inr (buffer_from_hex (signature_hex sig) = digest_bytes (hmac s p))"
      by (rule verifyWebhook_eq)
    then show ?thesis
      using l assms by (simp add: signature_hex_def)
  qed
qed

lemma hex_digit_not_s: "n < 16 \<Longrightarrow> hex_digit n \<noteq> CHR ''s''"
  using unhex_hex_digit [of n] by (auto simp: unhex_def)

lemma hex_encode_not_prefixed: "\<not> startsWith (hex_encode bs) ''sha256=''"
  by (cases bs) (auto simp: startsWith_def hex_digit_not_s byte_nibbles)

lemma verify_own_signature:
  "verifyWebhook hmac p (Some (hex_encode (digest_bytes (hmac s p')))) s
     = Inr (hmac s p' = hmac s p)"
proof -
  have "hex_encode (digest_bytes (hmac s p')) \<noteq> []"
    using length_hex_encode [of "digest_bytes (hmac s p')"] length_digest_bytes [of "hmac s p'"]
    by auto
  then show ?thesis
    using digest_bytes_inj [of "hmac s p'" "hmac s p"]
    by (auto simp: verifyWebhook_eq signature_hex_def hex_encode_not_prefixed decode_encode)
qed

lemma nib_hi: "(16 * v + m mod 16 = m) = (v = m div 16)" for v m :: nat
  using mult_div_mod_eq [of 16 m] by linarith

lemma nib_lo: "(16 * (m div 16) + v = m) = (v = m mod 16)" for v m :: nat
  using mult_div_mod_eq [of 16 m] by linarith

lemma byte_of_nat_eq: "n < 256 \<Longrightarrow> ((of_nat n :: byte) = b) = (n = unat b)"
proof
  assume "n < 256" "(of_nat n :: byte) = b"
  then show "n = unat b"
    using of_nat_inverse [of n b] by simp
next
  assume "n = unat b"
  then show "(of_nat n :: byte) = b" by simp
qed

lemma byte_hi: "v < 16 \<Longrightarrow> ((of_nat (16 * v + unat b mod 16) :: byte) = b) = (v = unat b div 16)"
proof -
  assume "v < 16"
  then have "16 * v + unat b mod 16 < 256" by simp
  from byte_of_nat_eq [OF this, of b] show ?thesis
    by (simp only: nib_hi)
qed

lemma byte_lo: "v < 16 \<Longrightarrow> ((of_nat (16 * (unat b div 16) + v) :: byte) = b) = (v = unat b mod 16)"
proof -
  assume "v < 16"
  then have "16 * (unat b div 16) + v < 256" using byte_nibbles(1) [of b] by simp
  from byte_of_nat_eq [OF this, of b] show ?thesis
    by (simp only: nib_lo)
qed

lemma byte_hi_sym:
  "v < 16 \<Longrightarrow> (b = (of_nat (16 * v + unat b mod 16) :: byte)) = (v = unat b div 16)"
  using byte_hi [of v b] by (simp only: eq_commute [of b])

lemma byte_lo_sym:
  "v < 16 \<Longrightarrow> (b = (of_nat (16 * (unat b div 16) + v) :: byte)) = (v = unat b mod 16)"
  using byte_lo [of v b] by (simp only: eq_commute [of b])

subsection \<open>One character of the signature replaced\<close>

lemma nibble_less: "nibble bs j < 16"
  by (simp add: nibble_def byte_nibbles)

lemma hex_encode_nth: "j < 2 * length bs \<Longrightarrow> hex_encode bs ! j = hex_digit (nibble bs j)"
proof (induction bs arbitrary: j)
  case Nil
  then show ?case by simp
next
  case (Cons b bs)
  show ?case
  proof (cases j)
    case 0
    then show ?thesis by (simp add: nibble_def)
  next
    case (Suc j1)
    show ?thesis
    proof (cases j1)
      case 0
      then show ?thesis using Suc by (simp add: nibble_def)
    next
      case (Suc j2)
      then have "j2 < 2 * length bs" using Cons.prems \<open>j = Suc j1\<close> by simp
      from Cons.IH [OF this] show ?thesis
        using Suc \<open>j = Suc j1\<close> by (simp add: nibble_def)
    qed
  qed
qed

lemma decode_update:
  "j < 2 * length bs \<Longrightarrow>
   buffer_from_hex ((hex_encode bs)[j := c]) =
     (case unhex c of
        None \<Rightarrow> take (j div 2) bs
      | Some v \<Rightarrow>
          bs[j div 2 := (if even j then of_nat (16 * v + unat (bs ! (j div 2)) mod 16)
                         else of_nat (16 * (unat (bs ! (j div 2)) div 16) + v))])"
proof (induction bs arbitrary: j)
  case Nil
  then show ?case by simp
next
  case (Cons b bs)
  show ?case
  proof (cases j)
    case 0
    then show ?thesis
      by (simp add: unhex_hex_digit byte_nibbles decode_encode del: of_nat_add of_nat_mult
          split: option.splits)
  next
    case (Suc j1)
    show ?thesis
    proof (cases j1)
      case 0
      then show ?thesis using Suc
        by (simp add: unhex_hex_digit byte_nibbles decode_encode del: of_nat_add of_nat_mult
            split: option.splits)
    next
      case (Suc j2)
      then have "j2 < 2 * length bs" using Cons.prems \<open>j = Suc j1\<close> by simp
      from Cons.IH [OF this] show ?thesis
        using Suc \<open>j = Suc j1\<close>
        by (simp add: unhex_hex_digit byte_nibbles del: of_nat_add of_nat_mult
            split: option.splits)
    qed
  qed
qed

lemma decode_update_eq:
  assumes "j < 2 * length bs"
  shows "(buffer_from_hex ((hex_encode bs)[j := c]) = bs) = (unhex c = Some (nibble bs j))"
proof (cases "unhex c")
  case None
  have "length (take (j div 2) bs) < length bs" using assms by simp
  then have "take (j div 2) bs \<noteq> bs" by auto
  then show ?thesis
    using None by (simp add: decode_update [OF assms])
next
  case (Some v)
  have k: "j div 2 < length bs" using assms by simp
  show ?thesis
    using Some unhex_less [OF Some]
    by (simp add: decode_update [OF assms] list_update_same_conv [OF k] nibble_def
        byte_hi_sym byte_lo_sym del: of_nat_add of_nat_mult)
qed

lemma small_cases16: "n < 16 \<Longrightarrow> n \<in> {0, 1, 2, 3, 4, 5, 6, 7, 8, 9, 10, 11, 12, 13, 14, 15}" for n :: nat
  by simp arith

lemma small_cases8: "i < 8 \<Longrightarrow> i \<in> {0, 1, 2, 3, 4, 5, 6, 7}" for i :: nat
  by simp arith

lemma hex_letter: "n < 16 \<Longrightarrow> (hex_digit n \<in> set ''abcdef'') = (10 \<le> n)"
  using small_cases16 [of n] by (auto simp: hex_digit_def)

lemma flip_hex_digit:
  assumes "n < 16" "i < 8"
  shows "(unhex (flip_char i (hex_digit n)) = Some n) = (i = 5 \<and> 10 \<le> n)"
  using small_cases16 [OF assms(1)] small_cases8 [OF assms(2)]
  by (auto simp: hex_digit_def flip_char_def flip_bit_eq_xor unhex_def)

lemma hex_digit_not_h: "n < 16 \<Longrightarrow> hex_digit n \<noteq> CHR ''h''"
  using unhex_hex_digit [of n] by (auto simp: unhex_def)

lemma not_prefixed_update:
  "bs \<noteq> [] \<Longrightarrow> \<not> startsWith ((hex_encode bs)[j := c]) ''sha256=''"
  by (cases bs; cases j)
     (auto simp: startsWith_def hex_digit_not_s hex_digit_not_h byte_nibbles)

lemma verify_flipped:
  assumes "j < 64" "i < 8"
  shows "verifyWebhook hmac p (Some (flip_at j i (hex_encode (digest_bytes (hmac s p))))) s
     = Inr (i = 5 \<and> hex_encode (digest_bytes (hmac s p)) ! j \<in> set ''abcdef'')"
proof -
  let ?bs = "digest_bytes (hmac s p)"
  let ?sig = "hex_encode ?bs"
  let ?c = "flip_char i (?sig ! j)"
  have j: "j < 2 * length ?bs" using assms(1) by (simp add: length_digest_bytes)
  have ne: "?sig[j := ?c] \<noteq> []"
    using length_hex_encode [of ?bs] length_digest_bytes [of "hmac s p"] by auto
  have np: "\<not> startsWith (?sig[j := ?c]) ''sha256=''"
    by (rule not_prefixed_update) (rule digest_not_Nil)
  have nth: "?sig ! j = hex_digit (nibble ?bs j)"
    by (rule hex_encode_nth [OF j])
  have "verifyWebhook hmac p (Some (?sig[j := ?c])) s
      = Inr (buffer_from_hex (signature_hex (?sig[j := ?c])) = ?bs)"
    by (rule verifyWebhook_eq [OF ne])
  also have "\<dots> = Inr (buffer_from_hex (?sig[j := ?c]) = ?bs)"
    using np by (simp only: signature_hex_def if_False)
  also have "\<dots> = Inr (unhex ?c = Some (nibble ?bs j))"
    by (simp only: decode_update_eq [OF j])
  also have "\<dots> = Inr (i = 5 \<and> 10 \<le> nibble ?bs j)"
    by (simp only: nth flip_hex_digit [OF nibble_less assms(2)])
  also have "\<dots> = Inr (i = 5 \<and> ?sig ! j \<in> set ''abcdef'')"
    by (simp only: nth hex_letter [OF nibble_less])
  finally show ?thesis
    by (simp only: flip_at_def)
qed

lemma verify_flipped_prefixed:
  assumes "j < 64" "i < 8"
  shows "verifyWebhook hmac p
       (Some (''sha256='' @ flip_at j i (hex_encode (digest_bytes (hmac s p))))) s
     = Inr (i = 5 \<and> hex_encode (digest_bytes (hmac s p)) ! j \<in> set ''abcdef'')"
proof -
  have "\<not> startsWith (flip_at j i (hex_encode (digest_bytes (hmac s p)))) ''sha256=''"
    unfolding flip_at_def by (rule not_prefixed_update) (rule digest_not_Nil)
  from verify_prefixed [OF this] show ?thesis
    by (simp only: verify_flipped [OF assms])
qed

lemma flipped_prefix_decodes_empty:
  assumes "j < 7" "i < 8"
  shows "\<not> startsWith (flip_at j i ''sha256='' @ sig) ''sha256='' \<and>
         buffer_from_hex (flip_at j i ''sha256='' @ sig) = []"
proof -
  from assms(1) have "j \<in> {0, 1, 2, 3, 4, 5, 6}" by simp arith
  moreover note small_cases8 [OF assms(2)]
  ultimately show ?thesis
    by (auto simp: flip_at_def flip_char_def flip_bit_eq_xor startsWith_def unhex_def
        char_of_eq_iff)
qed

lemma verify_flipped_in_prefix:
  assumes "j < 7" "i < 8"
  shows "verifyWebhook hmac p (Some (flip_at j i ''sha256='' @ sig)) s = Inr False"
proof -
  have "length (flip_at j i ''sha256='') = length ''sha256=''"
    by (simp only: flip_at_def length_list_update)
  then have ne: "flip_at j i ''sha256='' @ sig \<noteq> []" by auto
  from flipped_prefix_decodes_empty [OF assms, of sig] digest_not_Nil [of "hmac s p"]
  show ?thesis
    by (simp add: verifyWebhook_eq [OF ne] signature_hex_def)
qed

subsection \<open>The RFC 4231 signature\<close>

lemma rfc4231_signature:
  "hex_encode (digest_bytes (rfc4231_hmac ''Jefe'' rfc4231_data))
     = ''5bdcc146bf60754e6a042426089575c75a003f089d2739839dec58b964ec3843''"
  by (simp add: rfc4231_hmac_def digest_bytes_def hex_digit_def upt_conv_Cons)

lemma rfc4231_digest_bytes:
  "buffer_from_hex ''5bdcc146bf60754e6a042426089575c75a003f089d2739839dec58b964ec3843''
     = digest_bytes (rfc4231_hmac ''Jefe'' rfc4231_data)"
  using decode_encode [of "digest_bytes (rfc4231_hmac ''Jefe'' rfc4231_data)"]
  by (simp only: rfc4231_signature)

subsection \<open>Genuine and altered signatures\<close>

text \<open>
  C3, as the specification states it, fails for one kind of bit flip in the signature: bit 5 of a
  letter digit. \<^verbatim>\<open>Buffer.from(s, 'hex')\<close> reads both cases, so the signature of the
  RFC 4231 test case with its second character \<^verbatim>\<open>b\<close> (0x62) turned into \<^verbatim>\<open>B\<close> (0x42)
  is still accepted.
\<close>

theorem signature_case_flip_counterexample:
  "hex_encode (digest_bytes (rfc4231_hmac ''Jefe'' rfc4231_data))
     = ''5bdcc146bf60754e6a042426089575c75a003f089d2739839dec58b964ec3843'' \<and>
   flip_at 1 5 ''5bdcc146bf60754e6a042426089575c75a003f089d2739839dec58b964ec3843''
     = ''5Bdcc146bf60754e6a042426089575c75a003f089d2739839dec58b964ec3843'' \<and>
   verifyWebhook rfc4231_hmac rfc4231_data
       (Some ''5Bdcc146bf60754e6a042426089575c75a003f089d2739839dec58b964ec3843'') ''Jefe''
     = Inr True"
proof -
  have flip: "flip_at 1 5 ''5bdcc146bf60754e6a042426089575c75a003f089d2739839dec58b964ec3843''
     = ''5Bdcc146bf60754e6a042426089575c75a003f089d2739839dec58b964ec3843''"
    by (simp add: flip_at_def flip_char_def flip_bit_eq_xor char_of_eq_iff)
  have "buffer_from_hex ''5Bdcc146bf60754e6a042426089575c75a003f089d2739839dec58b964ec3843''
     = buffer_from_hex ''5bdcc146bf60754e6a042426089575c75a003f089d2739839dec58b964ec3843''"
    by (simp add: unhex_def)
  moreover have "signature_hex ''5Bdcc146bf60754e6a042426089575c75a003f089d2739839dec58b964ec3843''
     = ''5Bdcc146bf60754e6a042426089575c75a003f089d2739839dec58b964ec3843''"
    by (simp add: signature_hex_def startsWith_def)
  moreover have "verifyWebhook rfc4231_hmac rfc4231_data
       (Some ''5Bdcc146bf60754e6a042426089575c75a003f089d2739839dec58b964ec3843'') ''Jefe''
     = Inr (buffer_from_hex
              (signature_hex ''5Bdcc146bf60754e6a042426089575c75a003f089d2739839dec58b964ec3843'')
            = digest_bytes (rfc4231_hmac ''Jefe'' rfc4231_data))"
    by (rule verifyWebhook_eq) simp
  ultimately have "verifyWebhook rfc4231_hmac rfc4231_data
       (Some ''5Bdcc146bf60754e6a042426089575c75a003f089d2739839dec58b964ec3843'') ''Jefe''
     = Inr True"
    by (simp only: rfc4231_digest_bytes simp_thms)
  then show ?thesis
    using flip rfc4231_signature by simp
qed

text \<open>
  C3, amended. The hex digest of the payload under the secret is accepted, with and
  without the \<^verbatim>\<open>sha256=\<close> prefix. It is rejected for every other payload whose HMAC
  differs from that of the signed one: for a payload with one bit flipped, unless
  HMAC-SHA256 collides on the two, which is the primitive's property and not the
  verifier's. Flipping bit \<open>i\<close> of the character at position \<open>j\<close> of the 64-digit
  signature makes the verifier answer false, except for bit 5 of a digit \<^verbatim>\<open>a\<close> to
  \<^verbatim>\<open>f\<close>: that flip changes the digit's case only, and the signature is still accepted.
  Flipping any bit of the prefix \<^verbatim>\<open>sha256=\<close> makes the verifier answer false.
\<close>

theorem webhook_signature_roundtrip:
  "verifyWebhook hmac p (Some (hex_encode (digest_bytes (hmac s p)))) s = Inr True \<and>
   verifyWebhook hmac p (Some (''sha256='' @ hex_encode (digest_bytes (hmac s p)))) s = Inr True \<and>
   (hmac s p' \<noteq> hmac s p \<longrightarrow>
      verifyWebhook hmac p' (Some (hex_encode (digest_bytes (hmac s p)))) s = Inr False \<and>
      verifyWebhook hmac p' (Some (''sha256='' @ hex_encode (digest_bytes (hmac s p)))) s
        = Inr False) \<and>
   (\<forall>j<64. \<forall>i<8.
      verifyWebhook hmac p (Some (flip_at j i (hex_encode (digest_bytes (hmac s p))))) s
        = Inr (i = 5 \<and> hex_encode (digest_bytes (hmac s p)) ! j \<in> set ''abcdef'') \<and>
      verifyWebhook hmac p
          (Some (''sha256='' @ flip_at j i (hex_encode (digest_bytes (hmac s p))))) s
        = Inr (i = 5 \<and> hex_encode (digest_bytes (hmac s p)) ! j \<in> set ''abcdef'')) \<and>
   (\<forall>j<7. \<forall>i<8.
      verifyWebhook hmac p
          (Some (flip_at j i ''sha256='' @ hex_encode (digest_bytes (hmac s p)))) s
        = Inr False)"
proof -
  have own: "verifyWebhook hmac q (Some (hex_encode (digest_bytes (hmac s p)))) s
      = Inr (hmac s p = hmac s q)" for q
    by (rule verify_own_signature)
  have pre: "verifyWebhook hmac q (Some (''sha256='' @ hex_encode (digest_bytes (hmac s p)))) s
      = Inr (hmac s p = hmac s q)" for q
    by (simp only: verify_prefixed [OF hex_encode_not_prefixed] own)
  have same: "verifyWebhook hmac p (Some (hex_encode (digest_bytes (hmac s p)))) s = Inr True"
    "verifyWebhook hmac p (Some (''sha256='' @ hex_encode (digest_bytes (hmac s p)))) s = Inr True"
    by (simp_all only: own pre simp_thms)
  have other: "verifyWebhook hmac p' (Some (hex_encode (digest_bytes (hmac s p)))) s = Inr False"
    "verifyWebhook hmac p' (Some (''sha256='' @ hex_encode (digest_bytes (hmac s p)))) s = Inr False"
    if "hmac s p' \<noteq> hmac s p"
    using that own [of p'] pre [of p'] by auto
  show ?thesis
    by (intro conjI allI impI)
       (simp_all only: same other verify_flipped verify_flipped_prefixed verify_flipped_in_prefix
         simp_thms)
qed

theorem webhook_signature_roundtrip_witness:
  "verifyWebhook rfc4231_hmac rfc4231_data
       (Some (hex_encode (digest_bytes (rfc4231_hmac ''Jefe'' rfc4231_data)))) ''Jefe'' = Inr True \<and>
   rfc4231_hmac ''Jefe'' [] \<noteq> rfc4231_hmac ''Jefe'' rfc4231_data \<and>
   verifyWebhook rfc4231_hmac []
       (Some (hex_encode (digest_bytes (rfc4231_hmac ''Jefe'' rfc4231_data)))) ''Jefe'' = Inr False \<and>
   (0 :: nat) < 64 \<and> (3 :: nat) < 8 \<and>
   verifyWebhook rfc4231_hmac rfc4231_data
       (Some (flip_at 0 3 (hex_encode (digest_bytes (rfc4231_hmac ''Jefe'' rfc4231_data))))) ''Jefe''
     = Inr False \<and>
   (1 :: nat) < 7 \<and>
   verifyWebhook rfc4231_hmac rfc4231_data
       (Some (flip_at 1 3 ''sha256='' @ hex_encode (digest_bytes (rfc4231_hmac ''Jefe'' rfc4231_data))))
       ''Jefe''
     = Inr False"
proof -
  note T = webhook_signature_roundtrip
    [where hmac = rfc4231_hmac and p = rfc4231_data and s = "''Jefe''" and p' = "[]"]
  have d: "rfc4231_hmac ''Jefe'' [] \<noteq> rfc4231_hmac ''Jefe'' rfc4231_data"
    by (simp add: rfc4231_hmac_def rfc4231_data_def)
  have n: "(0 :: nat) < 64" "(3 :: nat) < 8" "(1 :: nat) < 7" by simp_all
  have c1: "verifyWebhook rfc4231_hmac rfc4231_data
       (Some (hex_encode (digest_bytes (rfc4231_hmac ''Jefe'' rfc4231_data)))) ''Jefe'' = Inr True"
    by (rule T [THEN conjunct1])
  have c3: "verifyWebhook rfc4231_hmac []
       (Some (hex_encode (digest_bytes (rfc4231_hmac ''Jefe'' rfc4231_data)))) ''Jefe'' = Inr False"
    by (rule T [THEN conjunct2, THEN conjunct2, THEN conjunct1, THEN mp, OF d, THEN conjunct1])
  have c4: "verifyWebhook rfc4231_hmac rfc4231_data
       (Some (flip_at 0 3 (hex_encode (digest_bytes (rfc4231_hmac ''Jefe'' rfc4231_data))))) ''Jefe''
     = Inr (3 = (5 :: nat) \<and>
            hex_encode (digest_bytes (rfc4231_hmac ''Jefe'' rfc4231_data)) ! 0 \<in> set ''abcdef'')"
    by (rule T [THEN conjunct2, THEN conjunct2, THEN conjunct2, THEN conjunct1, THEN spec,
          THEN mp, OF n(1), THEN spec, THEN mp, OF n(2), THEN conjunct1])
  have c5: "verifyWebhook rfc4231_hmac rfc4231_data
       (Some (flip_at 1 3 ''sha256='' @ hex_encode (digest_bytes (rfc4231_hmac ''Jefe'' rfc4231_data))))
       ''Jefe'' = Inr False"
    by (rule T [THEN conjunct2, THEN conjunct2, THEN conjunct2, THEN conjunct2, THEN spec,
          THEN mp, OF n(3), THEN spec, THEN mp, OF n(2)])
  have c4': "verifyWebhook rfc4231_hmac rfc4231_data
       (Some (flip_at 0 3 (hex_encode (digest_bytes (rfc4231_hmac ''Jefe'' rfc4231_data))))) ''Jefe''
     = Inr False"
    by (simp only: c4) simp
  show ?thesis
    by (intro conjI) (rule c1 d c3 n c4' c5)+
qed

subsection \<open>Malformed signatures\<close>

text \<open>
  C4, as the specification states it, fails for a signature that is not valid hex because
  something follows its 64 digits: \<^verbatim>\<open>Buffer.from(s, 'hex')\<close> stops at the first pair
  with a character that is no hex digit and keeps what it has decoded, so the genuine
  signature followed by \<^verbatim>\<open>zz\<close> is accepted.
\<close>

theorem trailing_garbage_counterexample:
  "unhex CHR ''z'' = None \<and>
   verifyWebhook rfc4231_hmac rfc4231_data
       (Some ''5bdcc146bf60754e6a042426089575c75a003f089d2739839dec58b964ec3843zz'') ''Jefe''
     = Inr True"
proof -
  have z: "unhex CHR ''z'' = None" by (simp add: unhex_def)
  have "buffer_from_hex ''5bdcc146bf60754e6a042426089575c75a003f089d2739839dec58b964ec3843zz''
     = buffer_from_hex ''5bdcc146bf60754e6a042426089575c75a003f089d2739839dec58b964ec3843''"
    by (simp add: unhex_def)
  moreover have "signature_hex ''5bdcc146bf60754e6a042426089575c75a003f089d2739839dec58b964ec3843zz''
     = ''5bdcc146bf60754e6a042426089575c75a003f089d2739839dec58b964ec3843zz''"
    by (simp add: signature_hex_def startsWith_def)
  moreover have "verifyWebhook rfc4231_hmac rfc4231_data
       (Some ''5bdcc146bf60754e6a042426089575c75a003f089d2739839dec58b964ec3843zz'') ''Jefe''
     = Inr (buffer_from_hex
              (signature_hex ''5bdcc146bf60754e6a042426089575c75a003f089d2739839dec58b964ec3843zz'')
            = digest_bytes (rfc4231_hmac ''Jefe'' rfc4231_data))"
    by (rule verifyWebhook_eq) simp
  ultimately have "verifyWebhook rfc4231_hmac rfc4231_data
       (Some ''5bdcc146bf60754e6a042426089575c75a003f089d2739839dec58b964ec3843zz'') ''Jefe''
     = Inr True"
    by (simp only: rfc4231_digest_bytes simp_thms)
  then show ?thesis
    using z by simp
qed

text \<open>
  C4, amended. \<^verbatim>\<open>verifyWebhook\<close> never throws: for every payload, secret and header,
  absent or not, it returns a boolean. It returns false when the header is absent or
  empty, when the signature does not begin with 64 hex digits (a character that is no
  hex digit among the first 64, or fewer than 64 characters), and when the decoded
  signature's byte length differs from the digest's. A signature that does not itself
  begin with \<^verbatim>\<open>sha256=\<close> gets the same answer with the prefix put in front of it as
  without.
\<close>

theorem webhook_malformed_signature:
  "(\<exists>b. verifyWebhook hmac p hdr s = Inr b) \<and>
   verifyWebhook hmac p None s = Inr False \<and>
   verifyWebhook hmac p (Some []) s = Inr False \<and>
   (\<not> startsWith sig ''sha256='' \<longrightarrow>
      (length (takeWhile (\<lambda>c. unhex c \<noteq> None) sig) < 64 \<longrightarrow>
         verifyWebhook hmac p (Some sig) s = Inr False) \<and>
      (length (buffer_from_hex sig) \<noteq> length (digest_bytes (hmac s p)) \<longrightarrow>
         verifyWebhook hmac p (Some sig) s = Inr False) \<and>
      verifyWebhook hmac p (Some (''sha256='' @ sig)) s = verifyWebhook hmac p (Some sig) s)"
proof -
  have absent: "verifyWebhook hmac p None s = Inr False"
    "verifyWebhook hmac p (Some []) s = Inr False"
    by (simp_all add: verifyWebhook_def)
  have total: "\<exists>b. verifyWebhook hmac p hdr s = Inr b"
  proof (cases hdr)
    case None
    then show ?thesis using absent(1) by blast
  next
    case (Some h)
    show ?thesis
    proof (cases "h = []")
      case True
      then show ?thesis using absent(2) Some by blast
    next
      case False
      from verifyWebhook_eq [OF this, of hmac p s] show ?thesis
        unfolding Some by blast
    qed
  qed
  have plain: "verifyWebhook hmac p (Some sig) s
      = Inr (sig \<noteq> [] \<and> buffer_from_hex sig = digest_bytes (hmac s p))"
    if "\<not> startsWith sig ''sha256=''"
    using that by (cases "sig = []") (simp_all add: verifyWebhook_eq signature_hex_def absent)
  have short: "verifyWebhook hmac p (Some sig) s = Inr False"
    if "\<not> startsWith sig ''sha256=''" "length (takeWhile (\<lambda>c. unhex c \<noteq> None) sig) < 64"
  proof -
    from decode_length_bound [of sig] that(2)
    have "length (buffer_from_hex sig) \<noteq> 32" by simp
    then have "buffer_from_hex sig \<noteq> digest_bytes (hmac s p)"
      using length_digest_bytes [of "hmac s p"] by auto
    then show ?thesis by (simp add: plain [OF that(1)])
  qed
  have wrong_length: "verifyWebhook hmac p (Some sig) s = Inr False"
    if "\<not> startsWith sig ''sha256=''"
      "length (buffer_from_hex sig) \<noteq> length (digest_bytes (hmac s p))"
    using that(2) by (auto simp: plain [OF that(1)])
  show ?thesis
    by (intro conjI allI impI)
       (simp_all only: total absent short wrong_length verify_prefixed simp_thms)
qed

theorem webhook_malformed_signature_witness:
  "\<not> startsWith ''not-hex'' ''sha256='' \<and>
   length (takeWhile (\<lambda>c. unhex c \<noteq> None) ''not-hex'') < 64 \<and>
   verifyWebhook rfc4231_hmac rfc4231_data (Some ''not-hex'') ''Jefe'' = Inr False \<and>
   verifyWebhook rfc4231_hmac rfc4231_data (Some (''sha256='' @ ''not-hex'')) ''Jefe'' = Inr False"
proof -
  note T = webhook_malformed_signature
    [where sig = "''not-hex''" and hmac = rfc4231_hmac and p = rfc4231_data and s = "''Jefe''"]
  have h1: "\<not> startsWith ''not-hex'' ''sha256=''"
    by (simp add: startsWith_def)
  have h2: "length (takeWhile (\<lambda>c. unhex c \<noteq> None) ''not-hex'') < 64"
    by (simp add: unhex_def)
  note U = T [THEN conjunct2, THEN conjunct2, THEN conjunct2, THEN mp, OF h1]
  have c1: "verifyWebhook rfc4231_hmac rfc4231_data (Some ''not-hex'') ''Jefe'' = Inr False"
    by (rule U [THEN conjunct1, THEN mp, OF h2])
  have c2: "verifyWebhook rfc4231_hmac rfc4231_data (Some (''sha256='' @ ''not-hex'')) ''Jefe''
      = Inr False"
    by (simp only: U [THEN conjunct2, THEN conjunct2] c1)
  show ?thesis
    by (intro conjI) (rule h1 h2 c1 c2)+
qed

end
